theory Spec2Isabelle
  imports Complex_Main
begin

section \<open>The commission creator component (commissionCreator.js)\<close>

text \<open>
  A shallow embedding of the matrix state engine of the \<^verbatim>\<open>CommissionCreator\<close> Lightning
  web component: the reconciliation of line items, team members and persisted commission
  records into a grid of cells (\<^verbatim>\<open>initializeMatrix\<close>), the four interaction handlers
  that replace the grid, the totals pass (\<^verbatim>\<open>calculateTotals\<close>), the submission handler
  and the delete-and-recreate handler.

  Conventions of the embedding:
  \<^item> JavaScript numbers are IEEE-754 binary64 values (\<open>double\<close> below): every
    arithmetic operation rounds its exact result to the nearest double, ties to even,
    and \<^verbatim>\<open>NaN\<close> and the two infinities are values.
  \<^item> A string property that may be \<^verbatim>\<open>undefined\<close> is an \<open>option\<close>; a numeric property of
    an Apex object is a \<open>jsNumber\<close>: absent, \<^verbatim>\<open>null\<close> or a number. The idiom \<^verbatim>\<open>x || d\<close>
    is written out with the falsy values of the type (\<^verbatim>\<open>undefined\<close>, \<^verbatim>\<open>null\<close>, \<^verbatim>\<open>0\<close>,
    \<^verbatim>\<open>NaN\<close>, \<^verbatim>\<open>''\<close>).
  \<^item> The component's tracked fields are a record that every method takes and returns.
    Dispatched events and Apex calls are appended to the field \<open>effects\<close>, in the order
    the code issues them; \<^verbatim>\<open>console.log\<close> output is not modelled.
  \<^item> The value an awaited Apex promise settles to is an argument of the method that
    awaits it.
  \<^item> Field names are the source's, except where two objects share a property name or
    the name is a HOL constant: \<^verbatim>\<open>lineItem.Id\<close> is \<open>liId\<close>, \<^verbatim>\<open>teamMember.userId\<close> is
    \<open>tmUserId\<close>, a commission record's \<^verbatim>\<open>Id\<close> is \<open>commId\<close>, \<^verbatim>\<open>cell.id\<close> is \<open>cellId\<close>.
\<close>

subsection \<open>Numbers\<close>

text \<open>
  A JavaScript number is a finite double, given by the rational it denotes, one of the
  two infinities, or \<^verbatim>\<open>NaN\<close>. The two zeros are one value, \<open>Finite 0\<close>: the component
  never divides by a variable and compares with \<^verbatim>\<open>===\<close>, \<^verbatim>\<open><=\<close> and truthiness only,
  none of which tells them apart. Every operation below returns a rounded value, so
  \<open>Finite r\<close> with \<open>r\<close> not representable is never computed.
\<close>

datatype double = Finite rat | PlusInfinity | MinusInfinity | NaN

definition pow2 :: "int \<Rightarrow> rat" where
  "pow2 e = (if 0 \<le> e then 2 ^ nat e else 1 / 2 ^ nat (- e))"

text \<open>The number of binary digits of a positive integer.\<close>

function bitLength :: "int \<Rightarrow> int" where
  "bitLength n = (if n \<le> 0 then 0 else 1 + bitLength (n div 2))"
  by pat_completeness auto
termination
  by (relation "measure nat") auto

text \<open>
  The exponent of the leading binary digit of a positive rational \<open>p / q\<close>: the difference
  of the bit lengths of \<open>p\<close> and \<open>q\<close>, or one less.
\<close>

definition floorLog2 :: "rat \<Rightarrow> int" where
  "floorLog2 a =
     (let (p, q) = quotient_of a;
          d = bitLength p - bitLength q
      in if pow2 d \<le> a then d else d - 1)"

definition roundHalfEven :: "rat \<Rightarrow> int" where
  "roundHalfEven m =
     (let n = \<lfloor>m\<rfloor>; f = m - of_int n
      in if f < 1 / 2 then n
         else if 1 / 2 < f then n + 1
         else if even n then n else n + 1)"

text \<open>
  Rounding an exact result to binary64. The significand has 53 bits, so the spacing of
  the doubles around a value with leading exponent \<open>e\<close> is \<open>2 ^ (e - 52)\<close>; below the
  smallest normal exponent \<open>-1022\<close> the spacing stays \<open>2 ^ (-1074)\<close> (subnormals, and
  underflow to 0). The rounded significand \<open>n\<close> is at most \<open>2 ^ 53\<close>, so the rounded
  value reaches \<open>2 ^ 1024\<close>, and becomes an infinity, exactly when \<open>e\<close> is at least 1024
  or \<open>e\<close> is 1023 and \<open>n\<close> is \<open>2 ^ 53\<close>.
\<close>

definition rnd :: "rat \<Rightarrow> double" where
  "rnd x =
     (if x = 0 then Finite 0
      else
        (let a = \<bar>x\<bar>;
             e = max (floorLog2 a) (- 1022);
             q = pow2 (e - 52);
             n = roundHalfEven (a / q)
         in if 1024 \<le> e \<or> (e = 1023 \<and> n = 9007199254740992)
            then (if 0 < x then PlusInfinity else MinusInfinity)
            else Finite (if 0 < x then of_int n * q else - (of_int n * q))))"

definition negative :: "double \<Rightarrow> bool" where
  "negative x = (case x of Finite a \<Rightarrow> a < 0 | MinusInfinity \<Rightarrow> True | _ \<Rightarrow> False)"

text \<open>\<^verbatim>\<open>x * y\<close>.\<close>

definition fmul :: "double \<Rightarrow> double \<Rightarrow> double" where
  "fmul x y =
     (if x = NaN \<or> y = NaN then NaN
      else case (x, y) of
             (Finite a, Finite b) \<Rightarrow> rnd (a * b)
           | _ \<Rightarrow> if x = Finite 0 \<or> y = Finite 0 then NaN
                  else if negative x = negative y then PlusInfinity else MinusInfinity)"

text \<open>\<^verbatim>\<open>x / 100\<close>, the only division of the component.\<close>

definition fdiv100 :: "double \<Rightarrow> double" where
  "fdiv100 x = (case x of Finite a \<Rightarrow> rnd (a / 100) | _ \<Rightarrow> x)"

text \<open>\<^verbatim>\<open>x + y\<close>.\<close>

definition fadd :: "double \<Rightarrow> double \<Rightarrow> double" where
  "fadd x y =
     (if x = NaN \<or> y = NaN then NaN
      else case (x, y) of
             (Finite a, Finite b) \<Rightarrow> rnd (a + b)
           | (Finite a, _) \<Rightarrow> y
           | (_, Finite b) \<Rightarrow> x
           | _ \<Rightarrow> if x = y then x else NaN)"

text \<open>\<^verbatim>\<open>x <= y\<close>: false when either side is \<^verbatim>\<open>NaN\<close>.\<close>

definition fle :: "double \<Rightarrow> double \<Rightarrow> bool" where
  "fle x y =
     (if x = NaN \<or> y = NaN then False
      else case (x, y) of
             (Finite a, Finite b) \<Rightarrow> a \<le> b
           | _ \<Rightarrow> x = MinusInfinity \<or> y = PlusInfinity)"

text \<open>The numbers that are falsy: zero and \<^verbatim>\<open>NaN\<close>.\<close>

definition falsy :: "double \<Rightarrow> bool" where
  "falsy x = (x = Finite 0 \<or> x = NaN)"

text \<open>
  A numeric property of an object that came from Apex: absent, \<^verbatim>\<open>null\<close>, or a number.
\<close>

datatype jsNumber = Undefined | Null | Number double

text \<open>The number a property is converted to by \<^verbatim>\<open><=\<close> and \<^verbatim>\<open>*\<close>.\<close>

definition toNumber :: "jsNumber \<Rightarrow> double" where
  "toNumber v = (case v of Undefined \<Rightarrow> NaN | Null \<Rightarrow> Finite 0 | Number d \<Rightarrow> d)"

subsection \<open>Data\<close>

text \<open>A line item of the Apex response; \<open>Product2_Name\<close> is \<^verbatim>\<open>lineItem.Product2?.Name\<close>.\<close>

record lineItem =
  liId :: string
  liName :: "string option"
  Product2_Name :: "string option"
  Line_Margin__c :: jsNumber

record teamMember =
  tmUserId :: string
  tmName :: string
  tmRole :: string
  defaultRate :: jsNumber

record commission =
  commId :: string
  OpportunityLineItem__c :: string
  User__c :: string
  Commission_Percentage__c :: jsNumber

record cell =
  cellId :: string
  lineItemId :: string
  userId :: string
  lineItemName :: "string option"
  teamMemberName :: string
  teamMemberRole :: string
  lineMargin :: double
  selected :: bool
  percentage :: double
  defaultPercentage :: double
  amount :: double
  existingCommissionId :: "string option"

text \<open>The object sent to Apex for one selected cell (\<^verbatim>\<open>cellsForApex\<close>).\<close>

record apexCell =
  apexLineItemId :: string
  apexUserId :: string
  apexSelected :: bool
  apexPercentage :: double
  apexAmount :: double

record opportunityData =
  lineItems :: "lineItem list option"
  teamMembers :: "teamMember list option"

text \<open>The result object of \<^verbatim>\<open>createUpdateCommissions\<close>.\<close>

record submitResult =
  success :: bool
  recordsCreated :: nat
  recordsUpdated :: nat
  errorMessage :: "string option"
  partialErrors :: "string list option"

text \<open>
  What an awaited promise settles to: its value, or a rejection whose
  \<^verbatim>\<open>error.body?.message\<close> is the argument (\<open>None\<close> for \<^verbatim>\<open>undefined\<close>).
\<close>

datatype 'a awaited = Resolved 'a | Rejected "string option"

datatype effect =
    ShowToastEvent string string string
  | Apex_getOpportunityData string
  | Apex_getExistingCommissions string
  | Apex_createUpdateCommissions string "apexCell list"
  | Apex_deleteExistingCommissions string
  | SetTimeout_closeFlowAndRefresh nat
  | CloseActionScreenEvent
  | Navigate string

record component =
  opportunityId :: string
  commissionsCreated :: string
  opportunityData :: opportunityData
  matrixData :: "cell list"
  existingCommissions :: "commission list"
  totalCommissions :: nat
  totalAmount :: double
  isLoading :: bool
  hasExistingCommissions :: bool
  showDuplicateOptions :: bool
  error :: "string option"
  refreshKey :: nat
  isProcessing :: bool
  effects :: "effect list"

text \<open>The field initialisers of the class.\<close>

definition initialComponent :: "string \<Rightarrow> component" where
  "initialComponent oppId =
     \<lparr> opportunityId = oppId, commissionsCreated = ''0'',
       opportunityData = \<lparr> lineItems = None, teamMembers = None \<rparr>,
       matrixData = [], existingCommissions = [], totalCommissions = 0, totalAmount = Finite 0,
       isLoading = True, hasExistingCommissions = False, showDuplicateOptions = False,
       error = None, refreshKey = 0, isProcessing = False, effects = [] \<rparr>"

subsection \<open>JavaScript idioms\<close>

text \<open>\<^verbatim>\<open>x || 0\<close> on a number.\<close>

definition numberOrZero :: "double \<Rightarrow> double" where
  "numberOrZero x = (if falsy x then Finite 0 else x)"

text \<open>\<^verbatim>\<open>x || 0\<close> on a numeric property: \<^verbatim>\<open>undefined\<close> and \<^verbatim>\<open>null\<close> are falsy too.\<close>

definition orZero :: "jsNumber \<Rightarrow> double" where
  "orZero v = (case v of Undefined \<Rightarrow> Finite 0 | Null \<Rightarrow> Finite 0 | Number d \<Rightarrow> numberOrZero d)"

text \<open>\<^verbatim>\<open>x || y\<close> on strings that may be undefined: the empty string is falsy.\<close>

definition orElse :: "string option \<Rightarrow> string option \<Rightarrow> string option" where
  "orElse x y = (case x of None \<Rightarrow> y | Some s \<Rightarrow> if s = [] then y else Some s)"

text \<open>A string spliced into a template literal or concatenated: undefined prints as its name.\<close>

definition str :: "string option \<Rightarrow> string" where
  "str x = (case x of None \<Rightarrow> ''undefined'' | Some s \<Rightarrow> s)"

definition digitChar :: "nat \<Rightarrow> char" where
  "digitChar d = char_of (48 + d)"

text \<open>\<^verbatim>\<open>toString()\<close> of a non-negative integer.\<close>

function showNat :: "nat \<Rightarrow> string" where
  "showNat n = (if n < 10 then [digitChar n] else showNat (n div 10) @ [digitChar (n mod 10)])"
  by pat_completeness auto
termination
  by (relation "measure (\<lambda>n. n)") auto

text \<open>\<^verbatim>\<open>xs.join(sep)\<close>.\<close>

fun join :: "string list \<Rightarrow> string \<Rightarrow> string" where
  "join [] sep = []"
| "join [x] sep = x"
| "join (x # y # ys) sep = x @ sep @ join (y # ys) sep"

subsection \<open>Notifications\<close>

definition dispatch :: "effect \<Rightarrow> component \<Rightarrow> component" where
  "dispatch e st = st\<lparr> effects := effects st @ [e] \<rparr>"

definition showSuccessToast :: "string \<Rightarrow> component \<Rightarrow> component" where
  "showSuccessToast message st = dispatch (ShowToastEvent ''Success'' message ''success'') st"

definition showErrorToast :: "string \<Rightarrow> component \<Rightarrow> component" where
  "showErrorToast message st = dispatch (ShowToastEvent ''Error'' message ''error'') st"

definition closeFlowAndRefresh :: "component \<Rightarrow> component" where
  "closeFlowAndRefresh st =
     dispatch (Navigate (opportunityId st)) (dispatch CloseActionScreenEvent st)"

definition forceRefresh :: "component \<Rightarrow> component" where
  "forceRefresh st = st\<lparr> refreshKey := refreshKey st + 1 \<rparr>"

subsection \<open>The totals pass\<close>

text \<open>The amount \<^verbatim>\<open>calculateTotals\<close> computes for one cell.\<close>

definition cellAmount :: "cell \<Rightarrow> double" where
  "cellAmount c =
     (let decimalPercentage = fdiv100 (percentage c)
      in if selected c then fmul (lineMargin c) decimalPercentage else Finite 0)"

text \<open>
  The \<^verbatim>\<open>map\<close> callback of \<^verbatim>\<open>calculateTotals\<close>, which also counts and sums: the two
  accumulators \<^verbatim>\<open>totalComm\<close> and \<^verbatim>\<open>totalAmt\<close> are threaded through the cells in order.
  The count is a natural number: an array has fewer than \<open>2 ^ 32\<close> elements, and a
  double counts exactly up to \<open>2 ^ 53\<close>.
\<close>

fun totalsLoop :: "cell list \<Rightarrow> nat \<Rightarrow> double \<Rightarrow> cell list \<times> nat \<times> double" where
  "totalsLoop [] totalComm totalAmt = ([], totalComm, totalAmt)"
| "totalsLoop (c # cs) totalComm totalAmt =
     (let amt = cellAmount c;
          totalComm' = (if selected c then totalComm + 1 else totalComm);
          totalAmt' = (if selected c then fadd totalAmt amt else totalAmt);
          (rest, n, s) = totalsLoop cs totalComm' totalAmt'
      in (c\<lparr> amount := amt \<rparr> # rest, n, s))"

definition calculateTotals :: "component \<Rightarrow> component" where
  "calculateTotals st =
     (let (newMatrix, totalComm, totalAmt) = totalsLoop (matrixData st) 0 (Finite 0)
      in st\<lparr> matrixData := newMatrix, totalCommissions := totalComm, totalAmount := totalAmt \<rparr>)"

subsection \<open>Reconciliation\<close>

definition findExistingCommission :: "commission list \<Rightarrow> string \<Rightarrow> string \<Rightarrow> commission option" where
  "findExistingCommission comms lId uId =
     find (\<lambda>comm. OpportunityLineItem__c comm = lId \<and> User__c comm = uId) comms"

text \<open>The percentage of a new cell: the default rate, or the persisted rate rescaled.\<close>

definition percentageValue :: "teamMember \<Rightarrow> commission option \<Rightarrow> double" where
  "percentageValue tm existingCommission =
     (case existingCommission of
        None \<Rightarrow> orZero (defaultRate tm)
      | Some comm \<Rightarrow>
          (let commissionPercentage = Commission_Percentage__c comm
           in if commissionPercentage = Undefined then orZero (defaultRate tm)
              else if fle (toNumber commissionPercentage) (Finite 1)
                   then fmul (toNumber commissionPercentage) (Finite 100)
                   else toNumber commissionPercentage))"

text \<open>The body of the inner \<^verbatim>\<open>forEach\<close> of \<^verbatim>\<open>initializeMatrix\<close>.\<close>

definition newCell :: "commission list \<Rightarrow> lineItem \<Rightarrow> teamMember \<Rightarrow> cell" where
  "newCell comms li tm =
     (let existingCommission = findExistingCommission comms (liId li) (tmUserId tm)
      in \<lparr> cellId = liId li @ ''-'' @ tmUserId tm,
           lineItemId = liId li,
           userId = tmUserId tm,
           lineItemName = orElse (Product2_Name li) (liName li),
           teamMemberName = tmName tm,
           teamMemberRole = tmRole tm,
           lineMargin = orZero (Line_Margin__c li),
           selected = (existingCommission \<noteq> None),
           percentage = percentageValue tm existingCommission,
           defaultPercentage = orZero (defaultRate tm),
           amount = Finite 0,
           existingCommissionId =
             (case existingCommission of
                None \<Rightarrow> None
              | Some comm \<Rightarrow> if commId comm = [] then None else Some (commId comm)) \<rparr>)"

text \<open>
  The two nested \<^verbatim>\<open>?.forEach\<close> loops: nothing is pushed when either list is undefined.
\<close>

definition buildMatrix :: "commission list \<Rightarrow> opportunityData \<Rightarrow> cell list" where
  "buildMatrix comms od =
     (case lineItems od of
        None \<Rightarrow> []
      | Some lis \<Rightarrow>
          concat (map (\<lambda>li. case teamMembers od of
                               None \<Rightarrow> []
                             | Some tms \<Rightarrow> map (\<lambda>tm. newCell comms li tm) tms) lis))"

definition initializeMatrix :: "component \<Rightarrow> component" where
  "initializeMatrix st =
     (calculateTotals
        (st\<lparr> matrixData := buildMatrix (existingCommissions st) (opportunityData st) \<rparr>))
     \<lparr> showDuplicateOptions := False \<rparr>"

subsection \<open>Existing-commission options\<close>

definition handleEditExisting :: "component \<Rightarrow> component" where
  "handleEditExisting st = initializeMatrix st"

definition handleCancel :: "component \<Rightarrow> component" where
  "handleCancel st = closeFlowAndRefresh (st\<lparr> showDuplicateOptions := False \<rparr>)"

text \<open>
  \<^verbatim>\<open>handleDeleteAndRecreate\<close>; the argument is what the awaited
  \<^verbatim>\<open>deleteExistingCommissions\<close> call settles to. The \<^verbatim>\<open>finally\<close> block runs on both paths.
\<close>

definition handleDeleteAndRecreate :: "unit awaited \<Rightarrow> component \<Rightarrow> component" where
  "handleDeleteAndRecreate outcome st =
     (let st1 = dispatch (Apex_deleteExistingCommissions (opportunityId st))
                  (st\<lparr> isProcessing := True \<rparr>);
          st2 = (case outcome of
                   Resolved _ \<Rightarrow>
                     showSuccessToast ''Existing commissions deleted. You can now create new ones.''
                       (initializeMatrix
                          (st1\<lparr> existingCommissions := [], hasExistingCommissions := False \<rparr>))
                 | Rejected message \<Rightarrow>
                     showErrorToast (''Error deleting existing commissions: '' @ str message) st1)
      in st2\<lparr> isProcessing := False \<rparr>)"

text \<open>
  \<^verbatim>\<open>loadData\<close>; the argument is what \<^verbatim>\<open>Promise.all\<close> of the two fetches settles to.
  In the \<^verbatim>\<open>catch\<close> block \<^verbatim>\<open>+\<close> binds tighter than \<^verbatim>\<open>||\<close>, so the message is always the
  concatenation.
\<close>

definition loadData :: "(opportunityData \<times> commission list) awaited \<Rightarrow> component \<Rightarrow> component" where
  "loadData outcome st =
     (let st1 = dispatch (Apex_getExistingCommissions (opportunityId st))
                  (dispatch (Apex_getOpportunityData (opportunityId st))
                     (st\<lparr> isLoading := True, error := None \<rparr>));
          st2 = (case outcome of
                   Resolved (oppData, existingComm) \<Rightarrow>
                     (let st3 = initializeMatrix
                                  (st1\<lparr> opportunityData := oppData,
                                        existingCommissions := existingComm,
                                        hasExistingCommissions := (length existingComm > 0) \<rparr>)
                      in if hasExistingCommissions st3
                         then st3\<lparr> showDuplicateOptions := True \<rparr> else st3)
                 | Rejected message \<Rightarrow>
                     (let msg = ''Error loading data: '' @ str message
                      in showErrorToast msg (st1\<lparr> error := Some msg \<rparr>)))
      in st2\<lparr> isLoading := False \<rparr>)"

subsection \<open>The four grid mutations\<close>

text \<open>
  Each handler reads its arguments from the event target, returns early when a data
  attribute is missing or empty, replaces the grid by a \<^verbatim>\<open>map\<close> over it, and then runs
  \<^verbatim>\<open>calculateTotals\<close> and \<^verbatim>\<open>forceRefresh\<close>. The \<^verbatim>\<open>map\<close> of each handler (its
  \<^verbatim>\<open>newMatrix\<close>) is a function of its own here, named after the operation it performs
  on the grid; a data attribute is \<open>None\<close> when it is absent.
\<close>

text \<open>\<^verbatim>\<open>newMatrix\<close> of \<^verbatim>\<open>handleCheckboxChange\<close>: the cell is found by its \<^verbatim>\<open>id\<close> string.\<close>

definition toggleCell :: "string \<Rightarrow> string \<Rightarrow> bool \<Rightarrow> cell list \<Rightarrow> cell list" where
  "toggleCell lId uId isChecked matrix =
     (let cId = lId @ ''-'' @ uId
      in map (\<lambda>c. if cellId c = cId then c\<lparr> selected := isChecked \<rparr> else c) matrix)"

definition handleCheckboxChange :: "string option \<Rightarrow> string option \<Rightarrow> bool \<Rightarrow> component \<Rightarrow> component" where
  "handleCheckboxChange lineItemIdAttr userIdAttr isChecked st =
     (case (lineItemIdAttr, userIdAttr) of
        (Some lId, Some uId) \<Rightarrow>
          if lId = [] \<or> uId = [] then st
          else forceRefresh
                 (calculateTotals (st\<lparr> matrixData := toggleCell lId uId isChecked (matrixData st) \<rparr>))
      | _ \<Rightarrow> st)"

definition handleCellSelection :: "string option \<Rightarrow> string option \<Rightarrow> bool \<Rightarrow> component \<Rightarrow> component" where
  "handleCellSelection lineItemIdAttr userIdAttr isChecked st =
     handleCheckboxChange lineItemIdAttr userIdAttr isChecked st"

text \<open>\<^verbatim>\<open>newMatrix\<close> of \<^verbatim>\<open>handlePercentageChange\<close>.\<close>

definition setPercentage :: "string \<Rightarrow> string \<Rightarrow> double \<Rightarrow> cell list \<Rightarrow> cell list" where
  "setPercentage lId uId percentageInput matrix =
     (let cId = lId @ ''-'' @ uId
      in map (\<lambda>c. if cellId c = cId then c\<lparr> percentage := percentageInput \<rparr> else c) matrix)"

text \<open>
  The third argument is \<^verbatim>\<open>parseFloat(event.target.value)\<close>, any double: \<^verbatim>\<open>NaN\<close> for
  text that is no number, an infinity for text such as \<^verbatim>\<open>1e400\<close>. \<^verbatim>\<open>|| 0\<close> replaces
  \<^verbatim>\<open>NaN\<close> by 0 and keeps an infinity.
\<close>

definition handlePercentageChange :: "string option \<Rightarrow> string option \<Rightarrow> double \<Rightarrow> component \<Rightarrow> component" where
  "handlePercentageChange lineItemIdAttr userIdAttr parsed st =
     (let percentageInput = numberOrZero parsed
      in case (lineItemIdAttr, userIdAttr) of
           (Some lId, Some uId) \<Rightarrow>
             if lId = [] \<or> uId = [] then st
             else forceRefresh
                    (calculateTotals
                       (st\<lparr> matrixData := setPercentage lId uId percentageInput (matrixData st) \<rparr>))
         | _ \<Rightarrow> st)"

text \<open>\<^verbatim>\<open>newMatrix\<close> of \<^verbatim>\<open>handleSelectAllForLineItem\<close>.\<close>

definition selectAllForLineItem :: "string \<Rightarrow> bool \<Rightarrow> cell list \<Rightarrow> cell list" where
  "selectAllForLineItem lId isChecked matrix =
     map (\<lambda>c. if lineItemId c = lId
               then (if isChecked \<and> percentage c = Finite 0
                     then c\<lparr> selected := isChecked, percentage := defaultPercentage c \<rparr>
                     else c\<lparr> selected := isChecked \<rparr>)
               else c) matrix"

definition handleSelectAllForLineItem :: "string option \<Rightarrow> bool \<Rightarrow> component \<Rightarrow> component" where
  "handleSelectAllForLineItem lineItemIdAttr isChecked st =
     (case lineItemIdAttr of
        Some lId \<Rightarrow>
          if lId = [] then st
          else forceRefresh
                 (calculateTotals
                    (st\<lparr> matrixData := selectAllForLineItem lId isChecked (matrixData st) \<rparr>))
      | None \<Rightarrow> st)"

text \<open>\<^verbatim>\<open>newMatrix\<close> of \<^verbatim>\<open>handleSelectAllForTeamMember\<close>.\<close>

definition selectAllForTeamMember :: "string \<Rightarrow> bool \<Rightarrow> cell list \<Rightarrow> cell list" where
  "selectAllForTeamMember uId isChecked matrix =
     map (\<lambda>c. if userId c = uId
               then (if isChecked
                     then c\<lparr> selected := isChecked, percentage := defaultPercentage c \<rparr>
                     else c\<lparr> selected := isChecked \<rparr>)
               else c) matrix"

definition handleSelectAllForTeamMember :: "string option \<Rightarrow> bool \<Rightarrow> component \<Rightarrow> component" where
  "handleSelectAllForTeamMember userIdAttr isChecked st =
     (case userIdAttr of
        Some uId \<Rightarrow>
          if uId = [] then st
          else forceRefresh
                 (calculateTotals
                    (st\<lparr> matrixData := selectAllForTeamMember uId isChecked (matrixData st) \<rparr>))
      | None \<Rightarrow> st)"

subsection \<open>Submission\<close>

definition cellForApex :: "cell \<Rightarrow> apexCell" where
  "cellForApex c =
     \<lparr> apexLineItemId = lineItemId c, apexUserId = userId c, apexSelected = selected c,
       apexPercentage = percentage c, apexAmount = amount c \<rparr>"

text \<open>What \<^verbatim>\<open>handleGenerateCommissions\<close> does with the result of the Apex call.\<close>

definition processResult :: "submitResult \<Rightarrow> component \<Rightarrow> component" where
  "processResult result st =
     (if success result then
        (let totalCreated = recordsCreated result + recordsUpdated result
         in dispatch (SetTimeout_closeFlowAndRefresh 1500)
              (showSuccessToast
                 (''Successfully processed '' @ showNat totalCreated @ '' commission records '' @
                  ''('' @ showNat (recordsCreated result) @ '' created, '' @
                  showNat (recordsUpdated result) @ '' updated)'')
                 (st\<lparr> commissionsCreated := showNat totalCreated \<rparr>)))
      else
        (let errorMsg = (case orElse (errorMessage result) (Some ''Unknown error occurred'') of
                           Some m \<Rightarrow> m | None \<Rightarrow> ''Unknown error occurred'');
             errorMsg' = (case partialErrors result of
                            Some errs \<Rightarrow>
                              if length errs > 0
                              then errorMsg @ [CHR 0x0A, CHR 0x0A] @ ''Details:'' @ [CHR 0x0A] @
                                   join errs [CHR 0x0A]
                              else errorMsg
                          | None \<Rightarrow> errorMsg)
         in showErrorToast errorMsg' st))"

text \<open>
  \<^verbatim>\<open>handleGenerateCommissions\<close>; the first argument is what the awaited
  \<^verbatim>\<open>createUpdateCommissions\<close> call settles to, read only when the call is made. The
  payload is the list that \<^verbatim>\<open>JSON.stringify\<close> serialises.
\<close>

definition handleGenerateCommissions :: "submitResult awaited \<Rightarrow> component \<Rightarrow> component" where
  "handleGenerateCommissions outcome st =
     (let st1 = st\<lparr> isProcessing := True \<rparr>;
          selectedCells = filter selected (matrixData st1);
          st2 = (if length selectedCells = 0
                 then showErrorToast ''Please select at least one commission to create.'' st1
                 else
                   (let cellsForApex = map cellForApex selectedCells;
                        st3 = dispatch (Apex_createUpdateCommissions (opportunityId st1) cellsForApex) st1
                    in case outcome of
                         Resolved result \<Rightarrow> processResult result st3
                       | Rejected message \<Rightarrow>
                           showErrorToast (''Error creating commissions: '' @ str message) st3))
      in st2\<lparr> isProcessing := False \<rparr>)"

subsection \<open>Predicates the properties are stated with\<close>

text \<open>A data attribute the guards of the handlers let through: defined and not empty.\<close>

definition present :: "string option \<Rightarrow> bool" where
  "present a = (case a of None \<Rightarrow> False | Some s \<Rightarrow> s \<noteq> [])"

text \<open>
  Every cell's amount is the double product of its line margin and its percentage
  divided by 100, in that order, when the cell is selected, and 0 otherwise.
\<close>

definition amountsSettled :: "cell list \<Rightarrow> bool" where
  "amountsSettled matrix =
     list_all (\<lambda>c. amount c = (if selected c then fmul (lineMargin c) (fdiv100 (percentage c))
                                 else Finite 0)) matrix"

text \<open>
  The amounts and the two totals agree with the grid: the count is the number of selected
  cells, the total is their amounts added one by one, from 0, in grid order.
\<close>

definition settled :: "component \<Rightarrow> bool" where
  "settled st =
     (amountsSettled (matrixData st) \<and>
      totalCommissions st = length (filter selected (matrixData st)) \<and>
      totalAmount st = foldl fadd (Finite 0) (map amount (filter selected (matrixData st))))"

text \<open>A cell with its amount recomputed, as the totals pass leaves it.\<close>

definition withAmount :: "cell \<Rightarrow> cell" where
  "withAmount c = c\<lparr> amount := cellAmount c \<rparr>"

text \<open>
  Every cell's \<open>cellId\<close> is its line item id, a hyphen and its user id, as \<open>newCell\<close> sets
  it, and no line item id contains a hyphen, so that the id string determines the pair.
\<close>

definition keyedGrid :: "cell list \<Rightarrow> bool" where
  "keyedGrid matrix =
     list_all (\<lambda>c. cellId c = lineItemId c @ ''-'' @ userId c \<and> CHR ''-'' \<notin> set (lineItemId c))
       matrix"

text \<open>The Apex calls among the effects.\<close>

definition isBackendCall :: "effect \<Rightarrow> bool" where
  "isBackendCall e =
     (case e of
        Apex_getOpportunityData _ \<Rightarrow> True
      | Apex_getExistingCommissions _ \<Rightarrow> True
      | Apex_createUpdateCommissions _ _ \<Rightarrow> True
      | Apex_deleteExistingCommissions _ \<Rightarrow> True
      | _ \<Rightarrow> False)"

text \<open>The effects a method appended to the log, given the component before and after.\<close>

definition issuedBy :: "component \<Rightarrow> component \<Rightarrow> effect list" where
  "issuedBy st st' = drop (length (effects st)) (effects st')"

text \<open>The notification of a submission with nothing selected.\<close>

definition validationToast :: effect where
  "validationToast =
     ShowToastEvent ''Error'' ''Please select at least one commission to create.'' ''error''"

subsection \<open>Example data\<close>

text \<open>The doubles that the decimal literals 0.15 and 0.07 denote.\<close>

definition rate_0_15 :: double where
  "rate_0_15 = rnd (15 / 100)"

definition rate_0_07 :: double where
  "rate_0_07 = rnd (7 / 100)"

definition exampleLineItems :: "lineItem list" where
  "exampleLineItems =
     [\<lparr> liId = ''L1'', liName = Some ''Widget'', Product2_Name = None,
        Line_Margin__c = Number (Finite 1000) \<rparr>,
      \<lparr> liId = ''L2'', liName = Some ''Gadget'', Product2_Name = Some ''Gadget Pro'',
        Line_Margin__c = Number (Finite 500) \<rparr>]"

definition exampleTeamMembers :: "teamMember list" where
  "exampleTeamMembers =
     [\<lparr> tmUserId = ''U1'', tmName = ''Ann'', tmRole = ''Owner'', defaultRate = Number (Finite 10) \<rparr>,
      \<lparr> tmUserId = ''U2'', tmName = ''Bob'', tmRole = ''Engineer'', defaultRate = Undefined \<rparr>]"

definition exampleCommissions :: "commission list" where
  "exampleCommissions =
     [\<lparr> commId = ''C1'', OpportunityLineItem__c = ''L1'', User__c = ''U2'',
        Commission_Percentage__c = Number rate_0_15 \<rparr>,
      \<lparr> commId = ''C2'', OpportunityLineItem__c = ''L2'', User__c = ''U1'',
        Commission_Percentage__c = Undefined \<rparr>,
      \<lparr> commId = ''C3'', OpportunityLineItem__c = ''L2'', User__c = ''U2'',
        Commission_Percentage__c = Number (Finite 15) \<rparr>]"

definition exampleData :: opportunityData where
  "exampleData = \<lparr> lineItems = Some exampleLineItems, teamMembers = Some exampleTeamMembers \<rparr>"

text \<open>The component after a successful load of the example data.\<close>

definition exampleComponent :: component where
  "exampleComponent = loadData (Resolved (exampleData, exampleCommissions)) (initialComponent ''OPP'')"

text \<open>The grid of \<open>exampleComponent\<close>, written out.\<close>

definition exampleMatrix :: "cell list" where
  "exampleMatrix =
     [\<lparr> cellId = ''L1-U1'', lineItemId = ''L1'', userId = ''U1'', lineItemName = Some ''Widget'',
        teamMemberName = ''Ann'', teamMemberRole = ''Owner'', lineMargin = Finite 1000,
        selected = False, percentage = Finite 10, defaultPercentage = Finite 10,
        amount = Finite 0, existingCommissionId = None \<rparr>,
      \<lparr> cellId = ''L1-U2'', lineItemId = ''L1'', userId = ''U2'', lineItemName = Some ''Widget'',
        teamMemberName = ''Bob'', teamMemberRole = ''Engineer'', lineMargin = Finite 1000,
        selected = True, percentage = Finite 15, defaultPercentage = Finite 0,
        amount = Finite 150, existingCommissionId = Some ''C1'' \<rparr>,
      \<lparr> cellId = ''L2-U1'', lineItemId = ''L2'', userId = ''U1'', lineItemName = Some ''Gadget Pro'',
        teamMemberName = ''Ann'', teamMemberRole = ''Owner'', lineMargin = Finite 500,
        selected = True, percentage = Finite 10, defaultPercentage = Finite 10,
        amount = Finite 50, existingCommissionId = Some ''C2'' \<rparr>,
      \<lparr> cellId = ''L2-U2'', lineItemId = ''L2'', userId = ''U2'', lineItemName = Some ''Gadget Pro'',
        teamMemberName = ''Bob'', teamMemberRole = ''Engineer'', lineMargin = Finite 500,
        selected = True, percentage = Finite 15, defaultPercentage = Finite 0,
        amount = Finite 75, existingCommissionId = Some ''C3'' \<rparr>]"

text \<open>The example after the user has typed 0 into the rate input of the first cell.\<close>

definition zeroedComponent :: component where
  "zeroedComponent = handlePercentageChange (Some ''L1'') (Some ''U1'') (Finite 0) exampleComponent"

definition zeroedMatrix :: "cell list" where
  "zeroedMatrix = exampleMatrix[0 := (exampleMatrix ! 0)\<lparr> percentage := Finite 0 \<rparr>]"

text \<open>The component after a load that found no persisted commission.\<close>

definition freshComponent :: component where
  "freshComponent = loadData (Resolved (exampleData, [])) (initialComponent ''OPP'')"

text \<open>The example data with one persisted commission, of rate 0.07.\<close>

definition lowRateCommissions :: "commission list" where
  "lowRateCommissions =
     [\<lparr> commId = ''C7'', OpportunityLineItem__c = ''L1'', User__c = ''U1'',
        Commission_Percentage__c = Number rate_0_07 \<rparr>]"

definition lowRateComponent :: component where
  "lowRateComponent = loadData (Resolved (exampleData, lowRateCommissions)) (initialComponent ''OPP'')"

text \<open>
  One line item of margin 3 and one team member of default rate 10, with the cell
  selected: the amount is then rounded twice.
\<close>

definition roundingData :: opportunityData where
  "roundingData =
     \<lparr> lineItems = Some [\<lparr> liId = ''L1'', liName = Some ''Widget'', Product2_Name = None,
                            Line_Margin__c = Number (Finite 3) \<rparr>],
       teamMembers = Some [\<lparr> tmUserId = ''U1'', tmName = ''Ann'', tmRole = ''Owner'',
                              defaultRate = Number (Finite 10) \<rparr>] \<rparr>"

definition roundingComponent :: component where
  "roundingComponent =
     handleCheckboxChange (Some ''L1'') (Some ''U1'') True
       (loadData (Resolved (roundingData, [])) (initialComponent ''OPP''))"

text \<open>
  Two line items and two team members whose ids contain hyphens: the cells of the
  pairs \<open>(a-b, c)\<close> and \<open>(a, b-c)\<close> get the same id string.
\<close>

definition hyphenData :: opportunityData where
  "hyphenData =
     \<lparr> lineItems = Some [\<lparr> liId = ''a-b'', liName = None, Product2_Name = None,
                            Line_Margin__c = Number (Finite 100) \<rparr>,
                          \<lparr> liId = ''a'', liName = None, Product2_Name = None,
                            Line_Margin__c = Number (Finite 100) \<rparr>],
       teamMembers = Some [\<lparr> tmUserId = ''c'', tmName = ''Ann'', tmRole = ''Owner'',
                              defaultRate = Number (Finite 10) \<rparr>,
                            \<lparr> tmUserId = ''b-c'', tmName = ''Bob'', tmRole = ''Engineer'',
                              defaultRate = Number (Finite 10) \<rparr>] \<rparr>"

definition hyphenComponent :: component where
  "hyphenComponent = loadData (Resolved (hyphenData, [])) (initialComponent ''OPP'')"

subsection \<open>Reachable components\<close>

text \<open>
  The components that arise from the initial one by the methods of the class, whatever
  the user does and whatever the Apex calls settle to.
\<close>

inductive reachable :: "component \<Rightarrow> bool" where
  initial: "reachable (initialComponent oppId)"
| load: "reachable st \<Longrightarrow> reachable (loadData outcome st)"
| editExisting: "reachable st \<Longrightarrow> reachable (handleEditExisting st)"
| cancel: "reachable st \<Longrightarrow> reachable (handleCancel st)"
| deleteAndRecreate: "reachable st \<Longrightarrow> reachable (handleDeleteAndRecreate deleted st)"
| checkboxChange: "reachable st \<Longrightarrow> reachable (handleCheckboxChange l u isChecked st)"
| percentageChange: "reachable st \<Longrightarrow> reachable (handlePercentageChange l u parsed st)"
| selectAllForLineItem: "reachable st \<Longrightarrow> reachable (handleSelectAllForLineItem l isChecked st)"
| selectAllForTeamMember: "reachable st \<Longrightarrow> reachable (handleSelectAllForTeamMember u isChecked st)"
| generateCommissions: "reachable st \<Longrightarrow> reachable (handleGenerateCommissions submitted st)"

section \<open>Properties\<close>

subsection \<open>Arithmetic on the example numbers\<close>

text \<open>
  Products, quotients and sums of the numbers in the examples, computed by the
  definitions of rounding above. The decimal expansions of the three long fractions are
  0.30000000000000004, 0.3 (more precisely 0.299999999999999988897769753748...) and
  7.000000000000001.
\<close>

lemma rounding_examples:
  "rnd (1 / 10) = Finite (3602879701896397 / 36028797018963968)"
  "rnd (15 / 100) = Finite (5404319552844595 / 36028797018963968)"
  "rnd 9007199254740993 = Finite 9007199254740992"
  "rnd 9007199254740995 = Finite 9007199254740996"
  "rnd (- 9007199254740993) = Finite (- 9007199254740992)"
  "rnd 150 = Finite 150"
  "fadd (rnd (1 / 10)) (rnd (2 / 10)) = Finite (1351079888211149 / 4503599627370496)"
  by code_simp+

lemma rates_le_1:
  "fle rate_0_15 (Finite 1)"
  "fle rate_0_07 (Finite 1)"
  by code_simp+

lemma rate_0_15_times_100: "fmul rate_0_15 (Finite 100) = Finite 15"
  by code_simp

lemma rate_0_07_value: "rate_0_07 = Finite (1261007895663739 / 18014398509481984)"
  by code_simp

lemma rate_0_07_times_100:
  "fmul rate_0_07 (Finite 100) = Finite (7881299347898369 / 1125899906842624)"
  by code_simp

lemma margin_3_rate_10:
  "fmul (Finite 3) (fdiv100 (Finite 10)) = Finite (1351079888211149 / 4503599627370496)"
  "fdiv100 (fmul (Finite 3) (Finite 10)) = Finite (5404319552844595 / 18014398509481984)"
  "fadd (Finite 0) (Finite (1351079888211149 / 4503599627370496)) =
     Finite (1351079888211149 / 4503599627370496)"
  by code_simp+

lemma example_amounts:
  "fmul (Finite 1000) (fdiv100 (Finite 15)) = Finite 150"
  "fmul (Finite 500) (fdiv100 (Finite 10)) = Finite 50"
  "fmul (Finite 500) (fdiv100 (Finite 15)) = Finite 75"
  "fmul (Finite 1000) (fdiv100 (Finite 10)) = Finite 100"
  "fmul (Finite 1000) (fdiv100 (Finite 0)) = Finite 0"
  "fmul (Finite 100) (fdiv100 (Finite 10)) = Finite 10"
  by code_simp+

lemma example_sums:
  "fadd (Finite 0) (Finite 150) = Finite 150"
  "fadd (Finite 150) (Finite 50) = Finite 200"
  "fadd (Finite 200) (Finite 75) = Finite 275"
  by code_simp+

lemma example_comparisons:
  "fle (Finite 15) (Finite 1) = False"
  "fle (Finite 0) (Finite 1) = True"
  by (simp_all add: fle_def)

lemma orZero_simps:
  "orZero Undefined = Finite 0"
  "orZero Null = Finite 0"
  "orZero (Number NaN) = Finite 0"
  "orZero (Number (Finite 0)) = Finite 0"
  "r \<noteq> 0 \<Longrightarrow> orZero (Number (Finite r)) = Finite r"
  "numberOrZero NaN = Finite 0"
  "numberOrZero (Finite r) = Finite r"
  "numberOrZero PlusInfinity = PlusInfinity"
  "numberOrZero MinusInfinity = MinusInfinity"
  by (simp_all add: orZero_def numberOrZero_def falsy_def)

text \<open>
  An infinite percentage, which the rate input stores for a text such as \<^verbatim>\<open>1e400\<close>,
  gives the amount \<^verbatim>\<open>NaN\<close> on a margin of 0.
\<close>

lemma infinite_percentage_amount:
  "fmul (Finite 0) (fdiv100 PlusInfinity) = NaN"
  by (simp add: fmul_def fdiv100_def)

subsection \<open>The totals pass in closed form\<close>

lemma totalsLoop_eq:
  "totalsLoop cs n s =
     (map withAmount cs, n + length (filter selected cs),
      foldl fadd s (map cellAmount (filter selected cs)))"
  by (induction cs arbitrary: n s) (simp_all add: withAmount_def Let_def)

lemma matrixData_calculateTotals:
  "matrixData (calculateTotals st) = map withAmount (matrixData st)"
  by (simp add: calculateTotals_def totalsLoop_eq)

lemma totalCommissions_calculateTotals:
  "totalCommissions (calculateTotals st) = length (filter selected (matrixData st))"
  by (simp add: calculateTotals_def totalsLoop_eq)

lemma totalAmount_calculateTotals:
  "totalAmount (calculateTotals st) =
     foldl fadd (Finite 0) (map cellAmount (filter selected (matrixData st)))"
  by (simp add: calculateTotals_def totalsLoop_eq)

lemma selected_withAmount [simp]: "selected (withAmount c) = selected c"
  by (simp add: withAmount_def)

lemma amount_withAmount [simp]: "amount (withAmount c) = cellAmount c"
  by (simp add: withAmount_def)

lemma cellAmount_withAmount [simp]: "cellAmount (withAmount c) = cellAmount c"
  by (simp add: withAmount_def cellAmount_def)

lemma withAmount_idem [simp]: "withAmount (withAmount c) = withAmount c"
  by (simp add: withAmount_def cellAmount_def)

lemma filter_selected_withAmount:
  "filter selected (map withAmount cs) = map withAmount (filter selected cs)"
  by (induction cs) simp_all

lemma amountsSettled_withAmount: "amountsSettled (map withAmount cs)"
  by (simp add: amountsSettled_def list_all_iff cellAmount_def withAmount_def)

lemma settled_calculateTotals: "settled (calculateTotals st)"
  unfolding settled_def
  by (simp add: matrixData_calculateTotals totalCommissions_calculateTotals
      totalAmount_calculateTotals filter_selected_withAmount amountsSettled_withAmount comp_def)

lemma calculateTotals_idem: "calculateTotals (calculateTotals st) = calculateTotals st"
  by (simp add: calculateTotals_def totalsLoop_eq filter_selected_withAmount comp_def)

lemma settled_forceRefresh: "settled (forceRefresh st) = settled st"
  by (simp add: settled_def forceRefresh_def)

lemma settled_initializeMatrix: "settled (initializeMatrix st)"
proof -
  have "settled (calculateTotals st') \<Longrightarrow>
        settled ((calculateTotals st')\<lparr> showDuplicateOptions := False \<rparr>)" for st'
    by (simp add: settled_def)
  then show ?thesis
    unfolding initializeMatrix_def using settled_calculateTotals by blast
qed

lemma settled_cong:
  "matrixData st' = matrixData st \<Longrightarrow> totalCommissions st' = totalCommissions st \<Longrightarrow>
   totalAmount st' = totalAmount st \<Longrightarrow> settled st' = settled st"
  by (simp add: settled_def)

lemma settled_initialComponent: "settled (initialComponent oppId)"
  by (simp add: settled_def amountsSettled_def initialComponent_def)

lemma settled_loadData: "settled st \<Longrightarrow> settled (loadData outcome st)"
proof (cases outcome)
  case (Resolved x)
  obtain oppData existingComm where x: "x = (oppData, existingComm)" by (cases x)
  let ?st3 = "initializeMatrix
      ((dispatch (Apex_getExistingCommissions (opportunityId st))
          (dispatch (Apex_getOpportunityData (opportunityId st))
             (st\<lparr> isLoading := True, error := None \<rparr>)))
        \<lparr> opportunityData := oppData, existingCommissions := existingComm,
          hasExistingCommissions := (length existingComm > 0) \<rparr>)"
  have "settled ?st3" by (rule settled_initializeMatrix)
  moreover have "settled (loadData outcome st) = settled ?st3"
    by (rule settled_cong) (simp_all add: Resolved x loadData_def Let_def)
  ultimately show ?thesis by simp
next
  case (Rejected message)
  assume "settled st"
  moreover have "settled (loadData outcome st) = settled st"
    by (rule settled_cong)
       (simp_all add: Rejected loadData_def Let_def showErrorToast_def dispatch_def)
  ultimately show ?thesis by simp
qed

lemma settled_handleDeleteAndRecreate:
  "settled st \<Longrightarrow> settled (handleDeleteAndRecreate outcome st)"
proof (cases outcome)
  case (Resolved x)
  let ?st' = "initializeMatrix
      ((dispatch (Apex_deleteExistingCommissions (opportunityId st)) (st\<lparr> isProcessing := True \<rparr>))
        \<lparr> existingCommissions := [], hasExistingCommissions := False \<rparr>)"
  have "settled ?st'" by (rule settled_initializeMatrix)
  moreover have "settled (handleDeleteAndRecreate outcome st) = settled ?st'"
    by (rule settled_cong)
       (simp_all add: Resolved handleDeleteAndRecreate_def Let_def showSuccessToast_def dispatch_def)
  ultimately show ?thesis by simp
next
  case (Rejected message)
  assume "settled st"
  moreover have "settled (handleDeleteAndRecreate outcome st) = settled st"
    by (rule settled_cong)
       (simp_all add: Rejected handleDeleteAndRecreate_def Let_def showErrorToast_def dispatch_def)
  ultimately show ?thesis by simp
qed

lemma processResult_frame:
  "matrixData (processResult result st) = matrixData st"
  "totalCommissions (processResult result st) = totalCommissions st"
  "totalAmount (processResult result st) = totalAmount st"
  by (simp_all add: processResult_def showSuccessToast_def showErrorToast_def dispatch_def Let_def)

lemma settled_handleGenerateCommissions:
  "settled (handleGenerateCommissions outcome st) = settled st"
  by (rule settled_cong)
     (simp_all add: handleGenerateCommissions_def Let_def showErrorToast_def dispatch_def
        processResult_frame split: awaited.splits)

lemma settled_handleCancel: "settled (handleCancel st) = settled st"
  by (rule settled_cong) (simp_all add: handleCancel_def closeFlowAndRefresh_def dispatch_def)

lemma settled_handlers:
  "settled st \<Longrightarrow> settled (handleCheckboxChange l u isChecked st)"
  "settled st \<Longrightarrow> settled (handlePercentageChange l u parsed st)"
  "settled st \<Longrightarrow> settled (handleSelectAllForLineItem l isChecked st)"
  "settled st \<Longrightarrow> settled (handleSelectAllForTeamMember u' isChecked st)"
  by (auto simp: handleCheckboxChange_def handlePercentageChange_def
      handleSelectAllForLineItem_def handleSelectAllForTeamMember_def
      settled_forceRefresh settled_calculateTotals Let_def split: option.splits)

lemma reachable_settled: "reachable st \<Longrightarrow> settled st"
proof (induction rule: reachable.induct)
  case (initial oppId)
  show ?case by (rule settled_initialComponent)
next
  case (editExisting st)
  show ?case by (simp add: handleEditExisting_def settled_initializeMatrix)
qed (simp_all add: settled_loadData settled_handleDeleteAndRecreate settled_handlers
      settled_handleGenerateCommissions settled_handleCancel)

subsection \<open>The example grids\<close>

lemma matrixData_exampleComponent: "matrixData exampleComponent = exampleMatrix"
  by (simp add: exampleComponent_def loadData_def initialComponent_def dispatch_def
      initializeMatrix_def matrixData_calculateTotals buildMatrix_def exampleData_def
      exampleLineItems_def exampleTeamMembers_def exampleCommissions_def newCell_def
      findExistingCommission_def percentageValue_def orZero_simps orElse_def withAmount_def
      cellAmount_def Let_def exampleMatrix_def toNumber_def rates_le_1 rate_0_15_times_100
      example_comparisons example_amounts)

lemma amountsSettled_exampleMatrix: "amountsSettled exampleMatrix"
  by (simp add: amountsSettled_def exampleMatrix_def example_amounts)

lemma exampleMatrix_nth:
  "exampleMatrix ! 0 = \<lparr> cellId = ''L1-U1'', lineItemId = ''L1'', userId = ''U1'',
        lineItemName = Some ''Widget'', teamMemberName = ''Ann'', teamMemberRole = ''Owner'',
        lineMargin = Finite 1000, selected = False, percentage = Finite 10, defaultPercentage = Finite 10,
        amount = Finite 0, existingCommissionId = None \<rparr>"
  "exampleMatrix ! Suc 0 = \<lparr> cellId = ''L1-U2'', lineItemId = ''L1'', userId = ''U2'',
        lineItemName = Some ''Widget'', teamMemberName = ''Bob'', teamMemberRole = ''Engineer'',
        lineMargin = Finite 1000, selected = True, percentage = Finite 15, defaultPercentage = Finite 0,
        amount = Finite 150, existingCommissionId = Some ''C1'' \<rparr>"
  "exampleMatrix ! 2 = \<lparr> cellId = ''L2-U1'', lineItemId = ''L2'', userId = ''U1'',
        lineItemName = Some ''Gadget Pro'', teamMemberName = ''Ann'', teamMemberRole = ''Owner'',
        lineMargin = Finite 500, selected = True, percentage = Finite 10, defaultPercentage = Finite 10,
        amount = Finite 50, existingCommissionId = Some ''C2'' \<rparr>"
  "exampleMatrix ! 3 = \<lparr> cellId = ''L2-U2'', lineItemId = ''L2'', userId = ''U2'',
        lineItemName = Some ''Gadget Pro'', teamMemberName = ''Bob'', teamMemberRole = ''Engineer'',
        lineMargin = Finite 500, selected = True, percentage = Finite 15, defaultPercentage = Finite 0,
        amount = Finite 75, existingCommissionId = Some ''C3'' \<rparr>"
  "length exampleMatrix = 4"
  by (simp_all add: exampleMatrix_def)

lemma zeroedMatrix_nth:
  "zeroedMatrix ! 0 = \<lparr> cellId = ''L1-U1'', lineItemId = ''L1'', userId = ''U1'',
        lineItemName = Some ''Widget'', teamMemberName = ''Ann'', teamMemberRole = ''Owner'',
        lineMargin = Finite 1000, selected = False, percentage = Finite 0, defaultPercentage = Finite 10,
        amount = Finite 0, existingCommissionId = None \<rparr>"
  "zeroedMatrix ! Suc 0 = exampleMatrix ! Suc 0"
  "zeroedMatrix ! 2 = exampleMatrix ! 2"
  "zeroedMatrix ! 3 = exampleMatrix ! 3"
  "length zeroedMatrix = 4"
  by (simp_all add: zeroedMatrix_def exampleMatrix_def)

lemma amountsSettled_zeroedMatrix: "amountsSettled zeroedMatrix"
  by (simp add: amountsSettled_def zeroedMatrix_def exampleMatrix_def example_amounts)

lemma matrixData_zeroedComponent: "matrixData zeroedComponent = zeroedMatrix"
  by (simp add: zeroedComponent_def handlePercentageChange_def orZero_simps forceRefresh_def
      matrixData_calculateTotals matrixData_exampleComponent setPercentage_def
      zeroedMatrix_def exampleMatrix_def withAmount_def cellAmount_def Let_def example_amounts)


subsection \<open>The layout of the grid\<close>

text \<open>
  The grid is built row by row: the cell of line item \<open>i\<close> and team member \<open>j\<close> is at
  index \<open>i * length tms + j\<close>.
\<close>

lemma length_concat_map_map:
  "length (concat (map (\<lambda>x. map (f x) ys) xs)) = length xs * length ys"
  by (induction xs) simp_all

lemma nth_concat_map_map:
  "i < length xs \<Longrightarrow> j < length ys \<Longrightarrow>
   concat (map (\<lambda>x. map (f x) ys) xs) ! (i * length ys + j) = f (xs ! i) (ys ! j)"
proof (induction xs arbitrary: i)
  case Nil
  then show ?case by simp
next
  case (Cons x xs)
  show ?case
  proof (cases i)
    case 0
    with Cons.prems show ?thesis
      by (simp add: nth_append)
  next
    case (Suc k)
    with Cons.prems have "k < length xs" by simp
    from Cons.IH [OF this Cons.prems(2)] Suc show ?thesis
      by (simp add: nth_append add.assoc)
  qed
qed

lemma length_buildMatrix:
  "lineItems od = Some lis \<Longrightarrow> teamMembers od = Some tms \<Longrightarrow>
   length (buildMatrix comms od) = length lis * length tms"
  by (simp add: buildMatrix_def length_concat_map_map)

lemma nth_buildMatrix:
  "lineItems od = Some lis \<Longrightarrow> teamMembers od = Some tms \<Longrightarrow>
   i < length lis \<Longrightarrow> j < length tms \<Longrightarrow>
   buildMatrix comms od ! (i * length tms + j) = newCell comms (lis ! i) (tms ! j)"
  by (simp add: buildMatrix_def nth_concat_map_map)

lemma index_in_grid:
  "i < n \<Longrightarrow> j < m \<Longrightarrow> i * m + j < n * (m::nat)"
proof -
  assume "i < n" "j < m"
  then have "i * m + j < i * m + m" by simp
  also have "\<dots> = Suc i * m" by simp
  also from \<open>i < n\<close> have "\<dots> \<le> n * m" by (intro mult_le_mono1) simp
  finally show ?thesis .
qed

lemma matrixData_initializeMatrix:
  "matrixData (initializeMatrix st) =
     map withAmount (buildMatrix (existingCommissions st) (opportunityData st))"
  by (simp add: initializeMatrix_def matrixData_calculateTotals)

lemma nth_initializeMatrix:
  assumes "lineItems (opportunityData st) = Some lis" "teamMembers (opportunityData st) = Some tms"
    and "i < length lis" "j < length tms"
  shows "matrixData (initializeMatrix st) ! (i * length tms + j) =
           withAmount (newCell (existingCommissions st) (lis ! i) (tms ! j))"
proof -
  have "i * length tms + j < length (buildMatrix (existingCommissions st) (opportunityData st))"
    using assms by (simp add: length_buildMatrix index_in_grid)
  then show ?thesis
    using assms by (simp add: matrixData_initializeMatrix nth_buildMatrix)
qed

lemma lineMargin_initializeMatrix:
  assumes "lineItems (opportunityData st) = Some lis" "teamMembers (opportunityData st) = Some tms"
    and "i < length lis" "j < length tms"
  shows "lineMargin (matrixData (initializeMatrix st) ! (i * length tms + j)) =
           orZero (Line_Margin__c (lis ! i))"
  using nth_initializeMatrix [OF assms] by (simp add: withAmount_def newCell_def Let_def)

lemma lineMargin_mutations:
  "map lineMargin (toggleCell lId uId isChecked matrix) = map lineMargin matrix"
  "map lineMargin (setPercentage lId uId v matrix) = map lineMargin matrix"
  "map lineMargin (selectAllForLineItem lId isChecked matrix) = map lineMargin matrix"
  "map lineMargin (selectAllForTeamMember uId isChecked matrix) = map lineMargin matrix"
  "map lineMargin (map withAmount matrix) = map lineMargin matrix"
  by (simp_all add: toggleCell_def setPercentage_def selectAllForLineItem_def
      selectAllForTeamMember_def withAmount_def Let_def)

lemma exampleComponent_fields:
  "opportunityData exampleComponent = exampleData"
  "existingCommissions exampleComponent = exampleCommissions"
  "opportunityId exampleComponent = ''OPP''"
  by (simp_all add: exampleComponent_def loadData_def initialComponent_def dispatch_def
      initializeMatrix_def calculateTotals_def split_def Let_def)

lemma freshComponent_fields:
  "opportunityData freshComponent = exampleData"
  "existingCommissions freshComponent = []"
  by (simp_all add: freshComponent_def loadData_def initialComponent_def dispatch_def
      initializeMatrix_def calculateTotals_def split_def Let_def)

lemma exampleData_fields:
  "lineItems exampleData = Some exampleLineItems"
  "teamMembers exampleData = Some exampleTeamMembers"
  "length exampleLineItems = 2" "length exampleTeamMembers = 2"
  by (simp_all add: exampleData_def exampleLineItems_def exampleTeamMembers_def)

subsection \<open>Amounts and totals after every mutation\<close>

lemma lineMargin_comp_withAmount: "lineMargin \<circ> withAmount = lineMargin"
  by (rule ext) (simp add: withAmount_def)

lemma lineMargin_handlers:
  "map lineMargin (matrixData (handleCheckboxChange l u isChecked st)) =
     map lineMargin (matrixData st)"
  "map lineMargin (matrixData (handlePercentageChange l u parsed st)) =
     map lineMargin (matrixData st)"
  "map lineMargin (matrixData (handleSelectAllForLineItem l isChecked st)) =
     map lineMargin (matrixData st)"
  "map lineMargin (matrixData (handleSelectAllForTeamMember u isChecked st)) =
     map lineMargin (matrixData st)"
  by (simp_all add: handleCheckboxChange_def handlePercentageChange_def
      handleSelectAllForLineItem_def handleSelectAllForTeamMember_def forceRefresh_def
      matrixData_calculateTotals lineMargin_mutations lineMargin_comp_withAmount Let_def
      split: option.splits)

lemma roundingComponent_cell:
  "matrixData roundingComponent =
     [\<lparr> cellId = ''L1-U1'', lineItemId = ''L1'', userId = ''U1'', lineItemName = Some ''Widget'',
        teamMemberName = ''Ann'', teamMemberRole = ''Owner'', lineMargin = Finite 3,
        selected = True, percentage = Finite 10, defaultPercentage = Finite 10,
        amount = fmul (Finite 3) (fdiv100 (Finite 10)), existingCommissionId = None \<rparr>]"
  "totalAmount roundingComponent = fadd (Finite 0) (fmul (Finite 3) (fdiv100 (Finite 10)))"
  by (simp_all add: roundingComponent_def roundingData_def handleCheckboxChange_def
      forceRefresh_def matrixData_calculateTotals totalAmount_calculateTotals loadData_def
      initialComponent_def dispatch_def initializeMatrix_def buildMatrix_def newCell_def
      findExistingCommission_def percentageValue_def orZero_simps orElse_def toggleCell_def
      withAmount_def cellAmount_def Let_def)

text \<open>
  Claim C1, as stated, fails. With a margin of 3 and a percentage of 10 the selected
  cell's amount is the double 0.30000000000000004, because the code divides the
  percentage by 100 first and multiplies the rounded quotient by the margin. It is not
  \<open>margin * percentage / 100\<close>: neither that expression evaluated in doubles from left
  to right, nor the exact value 3 / 10 rounded to the nearest double (both are the
  double 0.3), nor the exact value itself. The total, which is this one amount, differs
  likewise.
\<close>

theorem amount_is_not_margin_times_percentage_over_100:
  "selected (matrixData roundingComponent ! 0) \<and>
   lineMargin (matrixData roundingComponent ! 0) = Finite 3 \<and>
   percentage (matrixData roundingComponent ! 0) = Finite 10 \<and>
   amount (matrixData roundingComponent ! 0) = Finite (1351079888211149 / 4503599627370496) \<and>
   amount (matrixData roundingComponent ! 0) \<noteq> fdiv100 (fmul (Finite 3) (Finite 10)) \<and>
   amount (matrixData roundingComponent ! 0) \<noteq> rnd (3 * 10 / 100) \<and>
   amount (matrixData roundingComponent ! 0) \<noteq> Finite (3 * 10 / 100) \<and>
   totalAmount roundingComponent = Finite (1351079888211149 / 4503599627370496) \<and>
   totalAmount roundingComponent \<noteq> rnd (3 * 10 / 100)"
proof -
  have exact: "rnd (3 / 10) = Finite (5404319552844595 / 18014398509481984)"
    by code_simp
  show ?thesis
    by (simp add: roundingComponent_cell margin_3_rate_10 exact)
qed

text \<open>
  Claim C1, amended. After the initial reconciliation (\<open>initializeMatrix\<close>) and after each
  of the four mutation handlers, every cell's amount is the double product of its
  \<open>lineMargin\<close> and the double quotient \<open>percentage / 100\<close>, computed in that order, each
  operation rounded to the nearest double, if the cell is selected, and 0 otherwise;
  \<open>totalCommissions\<close> is the number of selected cells; \<open>totalAmount\<close> is the double sum of
  the amounts of the selected cells, added one by one from 0 in grid order. A handler
  whose data attributes are present establishes this from any state; one that returns
  at its guard leaves the state as it was, so the property stays if it held; hence it
  holds in every reachable component. \<open>lineMargin\<close> is the margin of the cell's line
  item (0 when the line item has none), copied into the cell when the grid is built,
  and no handler changes it.
\<close>

theorem settled_after_every_mutation:
  "settled (initializeMatrix st) \<and>
   (present l \<and> present u \<or> settled st \<longrightarrow> settled (handleCheckboxChange l u isChecked st)) \<and>
   (present l \<and> present u \<or> settled st \<longrightarrow> settled (handlePercentageChange l u parsed st)) \<and>
   (present l \<or> settled st \<longrightarrow> settled (handleSelectAllForLineItem l isChecked st)) \<and>
   (present u \<or> settled st \<longrightarrow> settled (handleSelectAllForTeamMember u isChecked st)) \<and>
   (reachable st \<longrightarrow> settled st) \<and>
   (lineItems (opportunityData st) = Some lis \<and> teamMembers (opportunityData st) = Some tms \<and>
    i < length lis \<and> j < length tms \<longrightarrow>
      lineMargin (matrixData (initializeMatrix st) ! (i * length tms + j)) =
        orZero (Line_Margin__c (lis ! i))) \<and>
   map lineMargin (matrixData (handleCheckboxChange l u isChecked st)) =
     map lineMargin (matrixData st) \<and>
   map lineMargin (matrixData (handlePercentageChange l u parsed st)) =
     map lineMargin (matrixData st) \<and>
   map lineMargin (matrixData (handleSelectAllForLineItem l isChecked st)) =
     map lineMargin (matrixData st) \<and>
   map lineMargin (matrixData (handleSelectAllForTeamMember u isChecked st)) =
     map lineMargin (matrixData st)"
proof -
  have step: "settled (forceRefresh (calculateTotals st'))" for st'
    by (simp add: settled_forceRefresh settled_calculateTotals)
  have a: "present l \<and> present u \<or> settled st \<longrightarrow> settled (handleCheckboxChange l u isChecked st)"
    by (auto simp: handleCheckboxChange_def present_def step split: option.splits)
  have b: "present l \<and> present u \<or> settled st \<longrightarrow> settled (handlePercentageChange l u parsed st)"
    by (auto simp: handlePercentageChange_def present_def step Let_def split: option.splits)
  have c: "present l \<or> settled st \<longrightarrow> settled (handleSelectAllForLineItem l isChecked st)"
    by (auto simp: handleSelectAllForLineItem_def present_def step split: option.splits)
  have d: "present u \<or> settled st \<longrightarrow> settled (handleSelectAllForTeamMember u isChecked st)"
    by (auto simp: handleSelectAllForTeamMember_def present_def step split: option.splits)
  have e: "lineItems (opportunityData st) = Some lis \<and> teamMembers (opportunityData st) = Some tms \<and>
    i < length lis \<and> j < length tms \<longrightarrow>
      lineMargin (matrixData (initializeMatrix st) ! (i * length tms + j)) =
        orZero (Line_Margin__c (lis ! i))"
    using lineMargin_initializeMatrix by blast
  show ?thesis
  proof (intro conjI)
    show "settled (initializeMatrix st)" by (rule settled_initializeMatrix)
    show "reachable st \<longrightarrow> settled st" using reachable_settled by blast
  qed (rule a b c d e lineMargin_handlers)+
qed

theorem settled_after_every_mutation_witness:
  "present (Some ''L1'') \<and> present (Some ''U1'') \<and>
   settled (handleCheckboxChange (Some ''L1'') (Some ''U1'') True exampleComponent) \<and>
   settled (handlePercentageChange (Some ''L1'') (Some ''U1'') (Finite 12) exampleComponent) \<and>
   settled (handleSelectAllForLineItem (Some ''L1'') True exampleComponent) \<and>
   settled (handleSelectAllForTeamMember (Some ''U1'') True exampleComponent) \<and>
   reachable exampleComponent \<and> settled exampleComponent \<and>
   totalCommissions exampleComponent = 3 \<and> totalAmount exampleComponent = Finite 275 \<and>
   lineMargin (matrixData (initializeMatrix exampleComponent) ! 2) = Finite 500"
proof -
  have r: "reachable exampleComponent"
    unfolding exampleComponent_def by (intro reachable.load reachable.initial)
  note inv = settled_after_every_mutation
    [of exampleComponent "Some ''L1''" "Some ''U1''" True "Finite 12"
        exampleLineItems exampleTeamMembers "Suc 0" 0]
  from inv r have s: "settled exampleComponent"
    by simp
  then have t: "totalCommissions exampleComponent = 3 \<and> totalAmount exampleComponent = Finite 275"
    by (simp add: settled_def matrixData_exampleComponent exampleMatrix_def example_sums)
  have od: "lineItems (opportunityData exampleComponent) = Some exampleLineItems"
      "teamMembers (opportunityData exampleComponent) = Some exampleTeamMembers"
      "Suc 0 < length exampleLineItems" "0 < length exampleTeamMembers"
    by (simp_all add: exampleComponent_fields exampleData_fields)
  with inv have m: "lineMargin (matrixData (initializeMatrix exampleComponent) ! 2) = Finite 500"
    by (simp add: exampleData_fields exampleLineItems_def orZero_simps numeral_2_eq_2)
  from inv r s t m show ?thesis
    by (simp add: present_def)
qed

subsection \<open>Idempotence of the totals pass\<close>

text \<open>
  Claim C9. Running \<open>calculateTotals\<close> twice gives the same component as running it once:
  the same grid, the same \<open>totalCommissions\<close> and the same \<open>totalAmount\<close>. It is a
  function of the component, so equal inputs give equal results.
\<close>

theorem totals_idempotent:
  "calculateTotals (calculateTotals st) = calculateTotals st \<and>
   matrixData (calculateTotals (calculateTotals st)) = matrixData (calculateTotals st) \<and>
   totalCommissions (calculateTotals (calculateTotals st)) = totalCommissions (calculateTotals st) \<and>
   totalAmount (calculateTotals (calculateTotals st)) = totalAmount (calculateTotals st)"
  by (simp add: calculateTotals_idem)

subsection \<open>Bulk selection\<close>

lemma withAmount_settled:
  "amount c = (if selected c then fmul (lineMargin c) (fdiv100 (percentage c)) else Finite 0) \<Longrightarrow>
   withAmount c = c"
  by (simp add: withAmount_def cellAmount_def)

lemma withAmount_nth_settled:
  "amountsSettled matrix \<Longrightarrow> i < length matrix \<Longrightarrow> withAmount (matrix ! i) = matrix ! i"
  by (simp add: amountsSettled_def list_all_length withAmount_settled)

lemma matrixData_handleSelectAllForTeamMember:
  "uId \<noteq> [] \<Longrightarrow>
   matrixData (handleSelectAllForTeamMember (Some uId) isChecked st) =
     map withAmount (selectAllForTeamMember uId isChecked (matrixData st))"
  by (simp add: handleSelectAllForTeamMember_def forceRefresh_def matrixData_calculateTotals)

lemma matrixData_handleSelectAllForLineItem:
  "lId \<noteq> [] \<Longrightarrow>
   matrixData (handleSelectAllForLineItem (Some lId) isChecked st) =
     map withAmount (selectAllForLineItem lId isChecked (matrixData st))"
  by (simp add: handleSelectAllForLineItem_def forceRefresh_def matrixData_calculateTotals)


text \<open>
  Claim C3. \<open>selectAllForTeamMember\<close> keeps the length and order of the grid; a cell whose
  \<open>userId\<close> matches gets \<open>selected = isChecked\<close> and, when \<open>isChecked\<close> is true, its
  percentage overwritten by its \<open>defaultPercentage\<close> whatever it was, and no other field
  changed; a cell of another user is unchanged. The handler, given a non-empty user id,
  stores this grid with the amounts recomputed, which leaves the cells of other users as
  they were when the amounts were settled before.
\<close>

theorem selectAllForTeamMember_effect:
  "length (selectAllForTeamMember uId isChecked matrix) = length matrix \<and>
   (\<forall>i < length matrix.
      let c = matrix ! i; c' = selectAllForTeamMember uId isChecked matrix ! i
      in (userId c = uId \<longrightarrow>
            c' = c\<lparr> selected := isChecked,
                     percentage := (if isChecked then defaultPercentage c else percentage c) \<rparr>) \<and>
         (userId c \<noteq> uId \<longrightarrow> c' = c)) \<and>
   (uId \<noteq> [] \<longrightarrow>
      matrixData (handleSelectAllForTeamMember (Some uId) isChecked st) =
        map withAmount (selectAllForTeamMember uId isChecked (matrixData st)) \<and>
      (amountsSettled (matrixData st) \<longrightarrow>
         (\<forall>i < length (matrixData st).
            userId (matrixData st ! i) \<noteq> uId \<longrightarrow>
            matrixData (handleSelectAllForTeamMember (Some uId) isChecked st) ! i = matrixData st ! i)))"
proof -
  have len: "length (selectAllForTeamMember uId isChecked matrix) = length matrix"
    by (simp add: selectAllForTeamMember_def)
  have cells: "\<forall>i < length matrix.
      let c = matrix ! i; c' = selectAllForTeamMember uId isChecked matrix ! i
      in (userId c = uId \<longrightarrow>
            c' = c\<lparr> selected := isChecked,
                     percentage := (if isChecked then defaultPercentage c else percentage c) \<rparr>) \<and>
         (userId c \<noteq> uId \<longrightarrow> c' = c)"
    by (simp add: selectAllForTeamMember_def Let_def)
  have others: "matrixData (handleSelectAllForTeamMember (Some uId) isChecked st) ! i = matrixData st ! i"
    if "uId \<noteq> []" "amountsSettled (matrixData st)" "i < length (matrixData st)"
       "userId (matrixData st ! i) \<noteq> uId" for i
    using that
    by (simp add: matrixData_handleSelectAllForTeamMember selectAllForTeamMember_def
        withAmount_nth_settled)
  show ?thesis
    using len cells others matrixData_handleSelectAllForTeamMember by blast
qed

theorem selectAllForTeamMember_effect_witness:
  "Suc 0 < length exampleMatrix \<and> userId (exampleMatrix ! Suc 0) = ''U2'' \<and>
   percentage (exampleMatrix ! Suc 0) = Finite 15 \<and> userId (exampleMatrix ! 0) = ''U1'' \<and>
   selectAllForTeamMember ''U2'' True exampleMatrix ! Suc 0 =
     (exampleMatrix ! Suc 0)\<lparr> selected := True, percentage := Finite 0 \<rparr> \<and>
   selectAllForTeamMember ''U2'' True exampleMatrix ! 0 = exampleMatrix ! 0 \<and>
   matrixData (handleSelectAllForTeamMember (Some ''U2'') True exampleComponent) ! 0 =
     exampleMatrix ! 0"
proof -
  note eff = selectAllForTeamMember_effect [of "''U2''" True exampleMatrix exampleComponent]
  from eff [THEN conjunct2, THEN conjunct1, rule_format, of "Suc 0"]
  have a: "selectAllForTeamMember ''U2'' True exampleMatrix ! Suc 0 =
      (exampleMatrix ! Suc 0)\<lparr> selected := True, percentage := Finite 0 \<rparr>"
    by (simp add: exampleMatrix_nth Let_def)
  from eff [THEN conjunct2, THEN conjunct1, rule_format, of 0]
  have b: "selectAllForTeamMember ''U2'' True exampleMatrix ! 0 = exampleMatrix ! 0"
    by (simp add: exampleMatrix_nth Let_def)
  from eff [THEN conjunct2, THEN conjunct2, rule_format, THEN conjunct2, rule_format, of 0]
  have c: "matrixData (handleSelectAllForTeamMember (Some ''U2'') True exampleComponent) ! 0 =
      exampleMatrix ! 0"
    by (simp add: matrixData_exampleComponent amountsSettled_exampleMatrix exampleMatrix_nth)
  from a b c show ?thesis
    by (simp add: exampleMatrix_nth)
qed


text \<open>
  Claim C4. \<open>selectAllForLineItem\<close> keeps the length and order of the grid; a cell whose
  \<open>lineItemId\<close> matches gets \<open>selected = isChecked\<close> and, when \<open>isChecked\<close> is true and its
  percentage is exactly 0, its percentage set to its \<open>defaultPercentage\<close>; a non-zero
  percentage stays; a cell of another line item is unchanged. The handler, given a
  non-empty line item id, stores this grid with the amounts recomputed.
\<close>

theorem selectAllForLineItem_effect:
  "length (selectAllForLineItem lId isChecked matrix) = length matrix \<and>
   (\<forall>i < length matrix.
      let c = matrix ! i; c' = selectAllForLineItem lId isChecked matrix ! i
      in (lineItemId c = lId \<longrightarrow>
            c' = c\<lparr> selected := isChecked,
                     percentage := (if isChecked \<and> percentage c = Finite 0 then defaultPercentage c
                                    else percentage c) \<rparr>) \<and>
         (lineItemId c \<noteq> lId \<longrightarrow> c' = c)) \<and>
   (lId \<noteq> [] \<longrightarrow>
      matrixData (handleSelectAllForLineItem (Some lId) isChecked st) =
        map withAmount (selectAllForLineItem lId isChecked (matrixData st)) \<and>
      (amountsSettled (matrixData st) \<longrightarrow>
         (\<forall>i < length (matrixData st).
            lineItemId (matrixData st ! i) \<noteq> lId \<longrightarrow>
            matrixData (handleSelectAllForLineItem (Some lId) isChecked st) ! i = matrixData st ! i)))"
proof -
  have len: "length (selectAllForLineItem lId isChecked matrix) = length matrix"
    by (simp add: selectAllForLineItem_def)
  have cells: "\<forall>i < length matrix.
      let c = matrix ! i; c' = selectAllForLineItem lId isChecked matrix ! i
      in (lineItemId c = lId \<longrightarrow>
            c' = c\<lparr> selected := isChecked,
                     percentage := (if isChecked \<and> percentage c = Finite 0 then defaultPercentage c
                                    else percentage c) \<rparr>) \<and>
         (lineItemId c \<noteq> lId \<longrightarrow> c' = c)"
    by (simp add: selectAllForLineItem_def Let_def)
  have others: "matrixData (handleSelectAllForLineItem (Some lId) isChecked st) ! i = matrixData st ! i"
    if "lId \<noteq> []" "amountsSettled (matrixData st)" "i < length (matrixData st)"
       "lineItemId (matrixData st ! i) \<noteq> lId" for i
    using that
    by (simp add: matrixData_handleSelectAllForLineItem selectAllForLineItem_def
        withAmount_nth_settled)
  show ?thesis
    using len cells others matrixData_handleSelectAllForLineItem by blast
qed

theorem selectAllForLineItem_effect_witness:
  "Suc 0 < length zeroedMatrix \<and> lineItemId (zeroedMatrix ! 0) = ''L1'' \<and>
   lineItemId (zeroedMatrix ! Suc 0) = ''L1'' \<and> lineItemId (zeroedMatrix ! 2) = ''L2'' \<and>
   percentage (zeroedMatrix ! 0) = Finite 0 \<and> defaultPercentage (zeroedMatrix ! 0) = Finite 10 \<and>
   percentage (zeroedMatrix ! Suc 0) = Finite 15 \<and>
   selectAllForLineItem ''L1'' True zeroedMatrix ! 0 =
     (zeroedMatrix ! 0)\<lparr> selected := True, percentage := Finite 10 \<rparr> \<and>
   selectAllForLineItem ''L1'' True zeroedMatrix ! Suc 0 =
     (zeroedMatrix ! Suc 0)\<lparr> selected := True, percentage := Finite 15 \<rparr> \<and>
   selectAllForLineItem ''L1'' True zeroedMatrix ! 2 = zeroedMatrix ! 2 \<and>
   matrixData (handleSelectAllForLineItem (Some ''L1'') True zeroedComponent) ! 2 =
     zeroedMatrix ! 2"
proof -
  note eff = selectAllForLineItem_effect [of "''L1''" True zeroedMatrix zeroedComponent]
  from eff [THEN conjunct2, THEN conjunct1, rule_format, of 0]
  have a: "selectAllForLineItem ''L1'' True zeroedMatrix ! 0 =
      (zeroedMatrix ! 0)\<lparr> selected := True, percentage := Finite 10 \<rparr>"
    by (simp add: zeroedMatrix_nth Let_def)
  from eff [THEN conjunct2, THEN conjunct1, rule_format, of "Suc 0"]
  have b: "selectAllForLineItem ''L1'' True zeroedMatrix ! Suc 0 =
      (zeroedMatrix ! Suc 0)\<lparr> selected := True, percentage := Finite 15 \<rparr>"
    by (simp add: zeroedMatrix_nth exampleMatrix_nth Let_def)
  from eff [THEN conjunct2, THEN conjunct1, rule_format, of 2]
  have c: "selectAllForLineItem ''L1'' True zeroedMatrix ! 2 = zeroedMatrix ! 2"
    by (simp add: zeroedMatrix_nth exampleMatrix_nth Let_def)
  from eff [THEN conjunct2, THEN conjunct2, rule_format, THEN conjunct2, rule_format, of 2]
  have d: "matrixData (handleSelectAllForLineItem (Some ''L1'') True zeroedComponent) ! 2 =
      zeroedMatrix ! 2"
    by (simp add: matrixData_zeroedComponent amountsSettled_zeroedMatrix zeroedMatrix_nth
        exampleMatrix_nth)
  from a b c d show ?thesis
    by (simp add: zeroedMatrix_nth exampleMatrix_nth)
qed

subsection \<open>Submission\<close>

lemma effects_processResult:
  "\<exists>es. effects (processResult result st) = effects st @ es \<and> filter isBackendCall es = []"
  by (simp add: processResult_def showSuccessToast_def showErrorToast_def dispatch_def
      isBackendCall_def Let_def)

lemma submit_none_selected:
  assumes "filter selected (matrixData st) = []"
  shows "handleGenerateCommissions outcome st =
           st\<lparr> isProcessing := False, effects := effects st @ [validationToast] \<rparr>"
  using assms
  by (simp add: handleGenerateCommissions_def showErrorToast_def dispatch_def validationToast_def)

lemma submit_some_selected:
  assumes "filter selected (matrixData st) \<noteq> []"
  shows "\<exists>es. effects (handleGenerateCommissions outcome st) =
           effects st @
           Apex_createUpdateCommissions (opportunityId st)
             (map cellForApex (filter selected (matrixData st))) # es \<and>
           filter isBackendCall es = []"
proof (cases outcome)
  case (Resolved result)
  let ?st3 = "dispatch (Apex_createUpdateCommissions (opportunityId st)
                 (map cellForApex (filter selected (matrixData st)))) (st\<lparr> isProcessing := True \<rparr>)"
  obtain es where es: "effects (processResult result ?st3) = effects ?st3 @ es"
      "filter isBackendCall es = []"
    using effects_processResult by blast
  have "effects (handleGenerateCommissions outcome st) = effects (processResult result ?st3)"
    using assms Resolved by (simp add: handleGenerateCommissions_def Let_def)
  with es show ?thesis
    by (simp add: dispatch_def)
next
  case (Rejected message)
  with assms show ?thesis
    by (simp add: handleGenerateCommissions_def Let_def showErrorToast_def dispatch_def
        isBackendCall_def)
qed

text \<open>
  Claim C6. A submission appends to the effect log exactly the validation error toast, and
  so makes no Apex call, if and only if no cell of the grid is selected. Otherwise the
  first effect it appends is the \<open>createUpdateCommissions\<close> call, whose payload is the
  selected cells in grid order, each projected to its line item id, user id, selected
  flag, percentage (as stored, on the 0 to 100 scale) and amount; it is the only Apex
  call of the submission.
\<close>

theorem submission_projects_selected_cells:
  "(let st' = handleGenerateCommissions outcome st;
        selectedCells = filter selected (matrixData st);
        issued = issuedBy st st'
    in effects st' = effects st @ issued \<and>
       (issued = [validationToast]) = (selectedCells = []) \<and>
       (filter isBackendCall issued = []) = (selectedCells = []) \<and>
       (selectedCells \<noteq> [] \<longrightarrow>
          hd issued = Apex_createUpdateCommissions (opportunityId st)
            (map (\<lambda>c. \<lparr> apexLineItemId = lineItemId c, apexUserId = userId c,
                        apexSelected = selected c, apexPercentage = percentage c,
                        apexAmount = amount c \<rparr>) selectedCells) \<and>
          filter isBackendCall issued = [hd issued]))"
proof (cases "filter selected (matrixData st) = []")
  case True
  then show ?thesis
    by (simp add: submit_none_selected [OF True] issuedBy_def Let_def validationToast_def
        isBackendCall_def)
next
  case False
  from submit_some_selected [OF False, of outcome] obtain es where
    es: "effects (handleGenerateCommissions outcome st) =
           effects st @
           Apex_createUpdateCommissions (opportunityId st)
             (map cellForApex (filter selected (matrixData st))) # es"
        "filter isBackendCall es = []"
    by blast
  have proj: "cellForApex = (\<lambda>c. \<lparr> apexLineItemId = lineItemId c, apexUserId = userId c,
                        apexSelected = selected c, apexPercentage = percentage c,
                        apexAmount = amount c \<rparr>)"
    by (rule ext) (simp add: cellForApex_def)
  from False es show ?thesis
    by (simp add: issuedBy_def Let_def validationToast_def isBackendCall_def proj)
qed

theorem submission_projects_selected_cells_witness:
  "filter selected (matrixData exampleComponent) \<noteq> [] \<and>
   hd (issuedBy exampleComponent (handleGenerateCommissions (Rejected None) exampleComponent)) =
     Apex_createUpdateCommissions ''OPP''
       [\<lparr> apexLineItemId = ''L1'', apexUserId = ''U2'', apexSelected = True,
          apexPercentage = Finite 15, apexAmount = Finite 150 \<rparr>,
        \<lparr> apexLineItemId = ''L2'', apexUserId = ''U1'', apexSelected = True,
          apexPercentage = Finite 10, apexAmount = Finite 50 \<rparr>,
        \<lparr> apexLineItemId = ''L2'', apexUserId = ''U2'', apexSelected = True,
          apexPercentage = Finite 15, apexAmount = Finite 75 \<rparr>] \<and>
   issuedBy (initialComponent ''OPP'')
     (handleGenerateCommissions (Rejected None) (initialComponent ''OPP'')) = [validationToast]"
proof -
  have opp: "opportunityId exampleComponent = ''OPP''"
    by (simp add: exampleComponent_def loadData_def initialComponent_def dispatch_def
        initializeMatrix_def calculateTotals_def split_def Let_def)
  have sel: "filter selected (matrixData exampleComponent) =
      [exampleMatrix ! Suc 0, exampleMatrix ! 2, exampleMatrix ! 3]"
    by (simp add: matrixData_exampleComponent exampleMatrix_def)
  from submission_projects_selected_cells [of "Rejected None" exampleComponent]
  have a: "hd (issuedBy exampleComponent (handleGenerateCommissions (Rejected None) exampleComponent)) =
     Apex_createUpdateCommissions ''OPP''
       [\<lparr> apexLineItemId = ''L1'', apexUserId = ''U2'', apexSelected = True,
          apexPercentage = Finite 15, apexAmount = Finite 150 \<rparr>,
        \<lparr> apexLineItemId = ''L2'', apexUserId = ''U1'', apexSelected = True,
          apexPercentage = Finite 10, apexAmount = Finite 50 \<rparr>,
        \<lparr> apexLineItemId = ''L2'', apexUserId = ''U2'', apexSelected = True,
          apexPercentage = Finite 15, apexAmount = Finite 75 \<rparr>]"
    by (simp add: Let_def sel opp exampleMatrix_nth)
  from submission_projects_selected_cells [of "Rejected None" "initialComponent ''OPP''"]
  have b: "issuedBy (initialComponent ''OPP'')
     (handleGenerateCommissions (Rejected None) (initialComponent ''OPP'')) = [validationToast]"
    by (simp add: Let_def initialComponent_def)
  from a b show ?thesis
    by (simp add: sel)
qed

subsection \<open>Reconciliation\<close>

lemma find_matching:
  assumes "comm \<in> set comms" "OpportunityLineItem__c comm = lId" "User__c comm = uId"
  shows "\<exists>r. findExistingCommission comms lId uId = Some r \<and> r \<in> set comms \<and>
             OpportunityLineItem__c r = lId \<and> User__c r = uId"
proof -
  let ?P = "\<lambda>c. OpportunityLineItem__c c = lId \<and> User__c c = uId"
  from assms have "\<exists>x\<in>set comms. ?P x" by blast
  then obtain r where r: "find ?P comms = Some r"
    by (cases "find ?P comms") (auto simp: find_None_iff)
  then have "r \<in> set comms" "?P r"
    by (auto simp: find_Some_iff)
  with r show ?thesis
    by (auto simp: findExistingCommission_def)
qed

text \<open>
  Claim C5. With line items \<open>lis\<close>, team members \<open>tms\<close> and no persisted commission record,
  \<open>initializeMatrix\<close> builds one cell per pair of the cross product, and the cell of line
  item \<open>i\<close> and team member \<open>j\<close> carries their two ids, is not selected, has no existing
  commission id, and has the member's default rate as its percentage (\<open>orZero\<close>: 0 when
  the member has none).
\<close>

theorem reconcile_without_records:
  assumes "lineItems (opportunityData st) = Some lis"
    and "teamMembers (opportunityData st) = Some tms"
    and "existingCommissions st = []"
  shows "length (matrixData (initializeMatrix st)) = length lis * length tms \<and>
         (\<forall>i < length lis. \<forall>j < length tms.
            let c = matrixData (initializeMatrix st) ! (i * length tms + j)
            in lineItemId c = liId (lis ! i) \<and> userId c = tmUserId (tms ! j) \<and>
               \<not> selected c \<and> existingCommissionId c = None \<and>
               percentage c = orZero (defaultRate (tms ! j)))"
proof -
  have len: "length (matrixData (initializeMatrix st)) = length lis * length tms"
    using assms by (simp add: matrixData_initializeMatrix length_buildMatrix)
  have cell: "let c = matrixData (initializeMatrix st) ! (i * length tms + j)
            in lineItemId c = liId (lis ! i) \<and> userId c = tmUserId (tms ! j) \<and>
               \<not> selected c \<and> existingCommissionId c = None \<and>
               percentage c = orZero (defaultRate (tms ! j))"
    if "i < length lis" "j < length tms" for i j
    using nth_initializeMatrix [OF assms(1,2) that] assms(3)
    by (simp add: withAmount_def newCell_def findExistingCommission_def percentageValue_def)
  from len cell show ?thesis by blast
qed

theorem reconcile_without_records_witness:
  "lineItems (opportunityData freshComponent) = Some exampleLineItems \<and>
   teamMembers (opportunityData freshComponent) = Some exampleTeamMembers \<and>
   existingCommissions freshComponent = [] \<and>
   length (matrixData (initializeMatrix freshComponent)) = 4 \<and>
   lineItemId (matrixData (initializeMatrix freshComponent) ! 2) = ''L2'' \<and>
   userId (matrixData (initializeMatrix freshComponent) ! 2) = ''U1'' \<and>
   selected (matrixData (initializeMatrix freshComponent) ! 2) = False \<and>
   existingCommissionId (matrixData (initializeMatrix freshComponent) ! 2) = None \<and>
   percentage (matrixData (initializeMatrix freshComponent) ! 2) = Finite 10"
proof -
  have od: "lineItems (opportunityData freshComponent) = Some exampleLineItems"
      "teamMembers (opportunityData freshComponent) = Some exampleTeamMembers"
    by (simp_all add: freshComponent_fields exampleData_fields)
  note rec = reconcile_without_records [OF od freshComponent_fields(2)]
  have len: "length (matrixData (initializeMatrix freshComponent)) = 4"
    using rec [THEN conjunct1] by (simp add: exampleData_fields)
  from rec [THEN conjunct2, rule_format, of "Suc 0" 0]
  have "let c = matrixData (initializeMatrix freshComponent) ! 2
        in lineItemId c = ''L2'' \<and> userId c = ''U1'' \<and> \<not> selected c \<and>
           existingCommissionId c = None \<and> percentage c = Finite 10"
    by (simp add: exampleData_fields exampleLineItems_def exampleTeamMembers_def orZero_simps
        Let_def numeral_2_eq_2)
  with od len show ?thesis
    by (simp add: Let_def freshComponent_fields)
qed

text \<open>
  Claim C2. When a persisted record for the pair of line item \<open>i\<close> and team member \<open>j\<close> is
  in the record set, the lookup finds a record \<open>r\<close> for that pair (the first in the
  list, which is the record itself when the pair has only one), and the cell of the
  pair is selected, has the id of \<open>r\<close> as its existing commission id (record ids are
  non-empty strings), and, when \<open>r\<close> has a persisted rate \<open>p\<close>, has the percentage
  \<open>p * 100\<close> if \<open>p \<le> 1\<close> and \<open>p\<close> otherwise, where the product and the comparison are
  those of doubles. So a rate of 0.15 and a rate of 15 both give 15; a rate of 0.07
  gives 7.000000000000001, the double nearest to the product.
\<close>

theorem reconcile_with_record:
  assumes "lineItems (opportunityData st) = Some lis"
    and "teamMembers (opportunityData st) = Some tms"
    and "i < length lis" and "j < length tms"
    and "comm \<in> set (existingCommissions st)"
    and "OpportunityLineItem__c comm = liId (lis ! i)"
    and "User__c comm = tmUserId (tms ! j)"
  shows "\<exists>r. findExistingCommission (existingCommissions st) (liId (lis ! i)) (tmUserId (tms ! j)) = Some r \<and>
             r \<in> set (existingCommissions st) \<and>
             OpportunityLineItem__c r = liId (lis ! i) \<and> User__c r = tmUserId (tms ! j) \<and>
             (let c = matrixData (initializeMatrix st) ! (i * length tms + j)
              in lineItemId c = liId (lis ! i) \<and> userId c = tmUserId (tms ! j) \<and>
                 selected c \<and>
                 (commId r \<noteq> [] \<longrightarrow> existingCommissionId c = Some (commId r)) \<and>
                 (\<forall>p. Commission_Percentage__c r = Number p \<longrightarrow>
                      percentage c = (if fle p (Finite 1) then fmul p (Finite 100) else p)))"
proof -
  from find_matching [OF assms(5,6,7)] obtain r where
    r: "findExistingCommission (existingCommissions st) (liId (lis ! i)) (tmUserId (tms ! j)) = Some r"
       "r \<in> set (existingCommissions st)"
       "OpportunityLineItem__c r = liId (lis ! i)" "User__c r = tmUserId (tms ! j)"
    by blast
  have "let c = matrixData (initializeMatrix st) ! (i * length tms + j)
              in lineItemId c = liId (lis ! i) \<and> userId c = tmUserId (tms ! j) \<and>
                 selected c \<and>
                 (commId r \<noteq> [] \<longrightarrow> existingCommissionId c = Some (commId r)) \<and>
                 (\<forall>p. Commission_Percentage__c r = Number p \<longrightarrow>
                      percentage c = (if fle p (Finite 1) then fmul p (Finite 100) else p))"
    using nth_initializeMatrix [OF assms(1,2,3,4)] r(1)
    by (simp add: withAmount_def newCell_def percentageValue_def toNumber_def Let_def)
  with r show ?thesis by blast
qed

lemma lowRateComponent_fields:
  "opportunityData lowRateComponent = exampleData"
  "existingCommissions lowRateComponent = lowRateCommissions"
  by (simp_all add: lowRateComponent_def loadData_def initialComponent_def dispatch_def
      initializeMatrix_def calculateTotals_def split_def Let_def)

theorem reconcile_with_record_witness:
  "exampleCommissions ! 0 \<in> set (existingCommissions exampleComponent) \<and>
   Commission_Percentage__c (exampleCommissions ! 0) = Number rate_0_15 \<and>
   selected (matrixData (initializeMatrix exampleComponent) ! Suc 0) \<and>
   existingCommissionId (matrixData (initializeMatrix exampleComponent) ! Suc 0) = Some ''C1'' \<and>
   percentage (matrixData (initializeMatrix exampleComponent) ! Suc 0) = Finite 15 \<and>
   Commission_Percentage__c (exampleCommissions ! 2) = Number (Finite 15) \<and>
   percentage (matrixData (initializeMatrix exampleComponent) ! 3) = Finite 15 \<and>
   Commission_Percentage__c (lowRateCommissions ! 0) = Number rate_0_07 \<and>
   percentage (matrixData (initializeMatrix lowRateComponent) ! 0) =
     Finite (7881299347898369 / 1125899906842624)"
proof -
  have od: "lineItems (opportunityData exampleComponent) = Some exampleLineItems"
      "teamMembers (opportunityData exampleComponent) = Some exampleTeamMembers"
    by (simp_all add: exampleComponent_fields exampleData_fields)
  have mem: "exampleCommissions ! 0 \<in> set (existingCommissions exampleComponent)"
      "exampleCommissions ! 2 \<in> set (existingCommissions exampleComponent)"
    by (simp_all add: exampleComponent_fields exampleCommissions_def)
  have "0 < length exampleLineItems" "Suc 0 < length exampleTeamMembers"
    by (simp_all add: exampleData_fields)
  from reconcile_with_record [OF od this mem(1)]
  obtain r where
    r: "findExistingCommission (existingCommissions exampleComponent)
          (liId (exampleLineItems ! 0)) (tmUserId (exampleTeamMembers ! Suc 0)) = Some r"
    and body: "let c = matrixData (initializeMatrix exampleComponent) !
                         (0 * length exampleTeamMembers + Suc 0)
               in lineItemId c = liId (exampleLineItems ! 0) \<and>
                  userId c = tmUserId (exampleTeamMembers ! Suc 0) \<and> selected c \<and>
                  (commId r \<noteq> [] \<longrightarrow> existingCommissionId c = Some (commId r)) \<and>
                  (\<forall>p. Commission_Percentage__c r = Number p \<longrightarrow>
                       percentage c = (if fle p (Finite 1) then fmul p (Finite 100) else p))"
    by (auto simp: exampleLineItems_def exampleTeamMembers_def exampleCommissions_def)
  from r have r_eq: "r = exampleCommissions ! 0"
    by (simp add: exampleComponent_fields findExistingCommission_def exampleCommissions_def
        exampleLineItems_def exampleTeamMembers_def)
  from body have sel: "selected (matrixData (initializeMatrix exampleComponent) ! Suc 0) \<and>
      existingCommissionId (matrixData (initializeMatrix exampleComponent) ! Suc 0) = Some ''C1''"
    and pc: "\<forall>p. Commission_Percentage__c r = Number p \<longrightarrow>
      percentage (matrixData (initializeMatrix exampleComponent) ! Suc 0) =
        (if fle p (Finite 1) then fmul p (Finite 100) else p)"
    by (simp_all add: r_eq Let_def exampleCommissions_def)
  from pc [rule_format, of rate_0_15]
  have "percentage (matrixData (initializeMatrix exampleComponent) ! Suc 0) = Finite 15"
    by (simp add: r_eq exampleCommissions_def rates_le_1 rate_0_15_times_100)
  with sel have a: "selected (matrixData (initializeMatrix exampleComponent) ! Suc 0) \<and>
      existingCommissionId (matrixData (initializeMatrix exampleComponent) ! Suc 0) = Some ''C1'' \<and>
      percentage (matrixData (initializeMatrix exampleComponent) ! Suc 0) = Finite 15"
    by simp
  have "Suc 0 < length exampleLineItems" "Suc 0 < length exampleTeamMembers"
    by (simp_all add: exampleData_fields)
  from reconcile_with_record [OF od this mem(2)]
  obtain r' where
    r': "findExistingCommission (existingCommissions exampleComponent)
          (liId (exampleLineItems ! Suc 0)) (tmUserId (exampleTeamMembers ! Suc 0)) = Some r'"
    and body': "let c = matrixData (initializeMatrix exampleComponent) !
                         (Suc 0 * length exampleTeamMembers + Suc 0)
               in lineItemId c = liId (exampleLineItems ! Suc 0) \<and>
                  userId c = tmUserId (exampleTeamMembers ! Suc 0) \<and> selected c \<and>
                  (commId r' \<noteq> [] \<longrightarrow> existingCommissionId c = Some (commId r')) \<and>
                  (\<forall>p. Commission_Percentage__c r' = Number p \<longrightarrow>
                       percentage c = (if fle p (Finite 1) then fmul p (Finite 100) else p))"
    by (auto simp: exampleLineItems_def exampleTeamMembers_def exampleCommissions_def)
  from r' have r'_eq: "r' = exampleCommissions ! 2"
    by (simp add: exampleComponent_fields findExistingCommission_def exampleCommissions_def
        exampleLineItems_def exampleTeamMembers_def)
  from body' have pc': "\<forall>p. Commission_Percentage__c r' = Number p \<longrightarrow>
      percentage (matrixData (initializeMatrix exampleComponent) ! 3) =
        (if fle p (Finite 1) then fmul p (Finite 100) else p)"
    by (simp add: Let_def exampleData_fields)
  from pc' [rule_format, of "Finite 15"]
  have b: "percentage (matrixData (initializeMatrix exampleComponent) ! 3) = Finite 15"
    by (simp add: r'_eq exampleCommissions_def example_comparisons)
  have od7: "lineItems (opportunityData lowRateComponent) = Some exampleLineItems"
      "teamMembers (opportunityData lowRateComponent) = Some exampleTeamMembers"
    by (simp_all add: lowRateComponent_fields exampleData_fields)
  have mem7: "lowRateCommissions ! 0 \<in> set (existingCommissions lowRateComponent)"
    by (simp add: lowRateComponent_fields lowRateCommissions_def)
  have "0 < length exampleLineItems" "0 < length exampleTeamMembers"
    by (simp_all add: exampleData_fields)
  from reconcile_with_record [OF od7 this mem7]
  obtain r7 where
    r7: "findExistingCommission (existingCommissions lowRateComponent)
          (liId (exampleLineItems ! 0)) (tmUserId (exampleTeamMembers ! 0)) = Some r7"
    and body7: "let c = matrixData (initializeMatrix lowRateComponent) !
                         (0 * length exampleTeamMembers + 0)
               in lineItemId c = liId (exampleLineItems ! 0) \<and>
                  userId c = tmUserId (exampleTeamMembers ! 0) \<and> selected c \<and>
                  (commId r7 \<noteq> [] \<longrightarrow> existingCommissionId c = Some (commId r7)) \<and>
                  (\<forall>p. Commission_Percentage__c r7 = Number p \<longrightarrow>
                       percentage c = (if fle p (Finite 1) then fmul p (Finite 100) else p))"
    by (auto simp: exampleLineItems_def exampleTeamMembers_def lowRateCommissions_def)
  from r7 have r7_eq: "r7 = lowRateCommissions ! 0"
    by (simp add: lowRateComponent_fields findExistingCommission_def lowRateCommissions_def
        exampleLineItems_def exampleTeamMembers_def)
  from body7 have pc7: "\<forall>p. Commission_Percentage__c r7 = Number p \<longrightarrow>
      percentage (matrixData (initializeMatrix lowRateComponent) ! 0) =
        (if fle p (Finite 1) then fmul p (Finite 100) else p)"
    by (simp add: Let_def)
  from pc7 [rule_format, of rate_0_07]
  have c: "percentage (matrixData (initializeMatrix lowRateComponent) ! 0) =
      Finite (7881299347898369 / 1125899906842624)"
    by (simp add: r7_eq lowRateCommissions_def rates_le_1 rate_0_07_times_100)
  from a b c mem show ?thesis
    by (simp add: exampleCommissions_def lowRateCommissions_def)
qed

text \<open>
  Claim C10. When the record found for the pair has no persisted rate (the field is
  undefined), the cell is still selected and still has the record's id, and its
  percentage is the team member's default rate, or 0 when the member has none
  (\<open>orZero\<close>, which is \<^verbatim>\<open>defaultRate || 0\<close>: a default rate that is a number other than
  \<^verbatim>\<open>NaN\<close> is taken as it is).
\<close>

theorem undefined_rate_falls_back_to_default:
  assumes "lineItems (opportunityData st) = Some lis"
    and "teamMembers (opportunityData st) = Some tms"
    and "i < length lis" and "j < length tms"
    and "comm \<in> set (existingCommissions st)"
    and "OpportunityLineItem__c comm = liId (lis ! i)"
    and "User__c comm = tmUserId (tms ! j)"
  shows "\<exists>r. findExistingCommission (existingCommissions st) (liId (lis ! i)) (tmUserId (tms ! j)) = Some r \<and>
             r \<in> set (existingCommissions st) \<and>
             OpportunityLineItem__c r = liId (lis ! i) \<and> User__c r = tmUserId (tms ! j) \<and>
             (Commission_Percentage__c r = Undefined \<longrightarrow>
                (let c = matrixData (initializeMatrix st) ! (i * length tms + j)
                 in selected c \<and>
                    (commId r \<noteq> [] \<longrightarrow> existingCommissionId c = Some (commId r)) \<and>
                    percentage c = orZero (defaultRate (tms ! j)) \<and>
                    (defaultRate (tms ! j) = Undefined \<longrightarrow> percentage c = Finite 0) \<and>
                    (\<forall>d. defaultRate (tms ! j) = Number d \<and> d \<noteq> NaN \<longrightarrow> percentage c = d)))"
proof -
  from find_matching [OF assms(5,6,7)] obtain r where
    r: "findExistingCommission (existingCommissions st) (liId (lis ! i)) (tmUserId (tms ! j)) = Some r"
       "r \<in> set (existingCommissions st)"
       "OpportunityLineItem__c r = liId (lis ! i)" "User__c r = tmUserId (tms ! j)"
    by blast
  have "Commission_Percentage__c r = Undefined \<longrightarrow>
                (let c = matrixData (initializeMatrix st) ! (i * length tms + j)
                 in selected c \<and>
                    (commId r \<noteq> [] \<longrightarrow> existingCommissionId c = Some (commId r)) \<and>
                    percentage c = orZero (defaultRate (tms ! j)) \<and>
                    (defaultRate (tms ! j) = Undefined \<longrightarrow> percentage c = Finite 0) \<and>
                    (\<forall>d. defaultRate (tms ! j) = Number d \<and> d \<noteq> NaN \<longrightarrow> percentage c = d))"
    using nth_initializeMatrix [OF assms(1,2,3,4)] r(1)
    by (auto simp: withAmount_def newCell_def percentageValue_def orZero_def numberOrZero_def
        falsy_def Let_def)
  with r show ?thesis by (intro exI [of _ r]) (simp only: simp_thms)
qed

theorem undefined_rate_falls_back_to_default_witness:
  "exampleCommissions ! Suc 0 \<in> set (existingCommissions exampleComponent) \<and>
   Commission_Percentage__c (exampleCommissions ! Suc 0) = Undefined \<and>
   defaultRate (exampleTeamMembers ! 0) = Number (Finite 10) \<and>
   selected (matrixData (initializeMatrix exampleComponent) ! 2) \<and>
   existingCommissionId (matrixData (initializeMatrix exampleComponent) ! 2) = Some ''C2'' \<and>
   percentage (matrixData (initializeMatrix exampleComponent) ! 2) = Finite 10"
proof -
  have od: "lineItems (opportunityData exampleComponent) = Some exampleLineItems"
      "teamMembers (opportunityData exampleComponent) = Some exampleTeamMembers"
    by (simp_all add: exampleComponent_fields exampleData_fields)
  have mem: "exampleCommissions ! Suc 0 \<in> set (existingCommissions exampleComponent)"
    by (simp add: exampleComponent_fields exampleCommissions_def)
  have "Suc 0 < length exampleLineItems" "0 < length exampleTeamMembers"
    by (simp_all add: exampleData_fields)
  from undefined_rate_falls_back_to_default [OF od this mem]
  obtain r where
    r: "findExistingCommission (existingCommissions exampleComponent)
          (liId (exampleLineItems ! Suc 0)) (tmUserId (exampleTeamMembers ! 0)) = Some r"
    and body: "Commission_Percentage__c r = Undefined \<longrightarrow>
               (let c = matrixData (initializeMatrix exampleComponent) !
                          (Suc 0 * length exampleTeamMembers + 0)
                in selected c \<and>
                   (commId r \<noteq> [] \<longrightarrow> existingCommissionId c = Some (commId r)) \<and>
                   percentage c = orZero (defaultRate (exampleTeamMembers ! 0)) \<and>
                   (defaultRate (exampleTeamMembers ! 0) = Undefined \<longrightarrow> percentage c = Finite 0) \<and>
                   (\<forall>d. defaultRate (exampleTeamMembers ! 0) = Number d \<and> d \<noteq> NaN \<longrightarrow>
                        percentage c = d))"
    by (auto simp: exampleLineItems_def exampleTeamMembers_def exampleCommissions_def)
  from r have r_eq: "r = exampleCommissions ! Suc 0"
    by (simp add: exampleComponent_fields findExistingCommission_def exampleCommissions_def
        exampleLineItems_def exampleTeamMembers_def)
  from body have "selected (matrixData (initializeMatrix exampleComponent) ! 2) \<and>
      existingCommissionId (matrixData (initializeMatrix exampleComponent) ! 2) = Some ''C2'' \<and>
      percentage (matrixData (initializeMatrix exampleComponent) ! 2) = Finite 10"
    by (simp add: r_eq Let_def exampleCommissions_def exampleTeamMembers_def numeral_2_eq_2
        orZero_simps)
  with mem show ?thesis
    by (simp add: exampleCommissions_def exampleTeamMembers_def)
qed

subsection \<open>Delete and recreate\<close>

lemma buildMatrix_no_records:
  "c \<in> set (buildMatrix [] od) \<Longrightarrow> existingCommissionId c = None \<and> \<not> selected c"
  by (auto simp: buildMatrix_def newCell_def findExistingCommission_def split: option.splits)

text \<open>
  Claim C7. When the delete call succeeds, the stored records are emptied and the grid is
  the one reconciliation builds from an empty record set: no cell has an existing
  commission id and no cell is selected. When the delete call rejects, the component is
  as before except for the processing flag and the effect log, which gains the delete
  call and one error toast: the grid and the stored records are untouched.
\<close>

theorem delete_and_recreate:
  "(let st' = handleDeleteAndRecreate (Resolved ()) st
    in existingCommissions st' = [] \<and> \<not> hasExistingCommissions st' \<and>
       matrixData st' = matrixData (initializeMatrix (st\<lparr> existingCommissions := [] \<rparr>)) \<and>
       list_all (\<lambda>c. existingCommissionId c = None \<and> \<not> selected c) (matrixData st')) \<and>
   (let st' = handleDeleteAndRecreate (Rejected message) st
    in st' = st\<lparr> isProcessing := False,
                 effects := effects st @
                   [Apex_deleteExistingCommissions (opportunityId st),
                    ShowToastEvent ''Error''
                      (''Error deleting existing commissions: '' @ str message) ''error''] \<rparr> \<and>
       matrixData st' = matrixData st \<and>
       existingCommissions st' = existingCommissions st \<and>
       hasExistingCommissions st' = hasExistingCommissions st)"
proof -
  let ?ok = "handleDeleteAndRecreate (Resolved ()) st"
  have m: "matrixData ?ok = map withAmount (buildMatrix [] (opportunityData st))"
    by (simp add: handleDeleteAndRecreate_def showSuccessToast_def dispatch_def
        matrixData_initializeMatrix Let_def)
  have a: "existingCommissions ?ok = [] \<and> \<not> hasExistingCommissions ?ok"
    by (simp add: handleDeleteAndRecreate_def showSuccessToast_def dispatch_def
        initializeMatrix_def calculateTotals_def split_def Let_def)
  have b: "matrixData ?ok = matrixData (initializeMatrix (st\<lparr> existingCommissions := [] \<rparr>))"
    by (simp add: m matrixData_initializeMatrix)
  have c: "list_all (\<lambda>c. existingCommissionId c = None \<and> \<not> selected c) (matrixData ?ok)"
    unfolding m list_all_iff
    using buildMatrix_no_records by (auto simp: withAmount_def)
  have d: "handleDeleteAndRecreate (Rejected message) st =
      st\<lparr> isProcessing := False,
          effects := effects st @
            [Apex_deleteExistingCommissions (opportunityId st),
             ShowToastEvent ''Error''
               (''Error deleting existing commissions: '' @ str message) ''error''] \<rparr>"
    by (simp add: handleDeleteAndRecreate_def showErrorToast_def dispatch_def Let_def)
  from a b c show ?thesis
    unfolding Let_def d by simp
qed

subsection \<open>Toggling one cell\<close>

text \<open>
  \<open>toggleCell\<close> finds its cell by the id string. On a keyed grid that is the same as
  finding it by the pair of ids.
\<close>

lemma cellId_inj:
  "CHR ''-'' \<notin> set l \<Longrightarrow> CHR ''-'' \<notin> set l' \<Longrightarrow>
   l @ ''-'' @ u = l' @ ''-'' @ u' \<Longrightarrow> l = l' \<and> u = u'"
proof (induction l arbitrary: l')
  case Nil
  then show ?case by (cases l') auto
next
  case (Cons a l)
  then show ?case by (cases l') auto
qed

lemma toggleCell_by_key:
  assumes "keyedGrid matrix" and "CHR ''-'' \<notin> set lId"
  shows "toggleCell lId uId isChecked matrix =
           map (\<lambda>c. if lineItemId c = lId \<and> userId c = uId then c\<lparr> selected := isChecked \<rparr> else c)
             matrix"
proof -
  have "(cellId c = lId @ ''-'' @ uId) = (lineItemId c = lId \<and> userId c = uId)"
    if "c \<in> set matrix" for c
  proof -
    from that assms(1) have k: "cellId c = lineItemId c @ ''-'' @ userId c"
        "CHR ''-'' \<notin> set (lineItemId c)"
      by (auto simp: keyedGrid_def list_all_iff)
    show ?thesis
      using cellId_inj [OF k(2) assms(2)] by (auto simp: k(1))
  qed
  then show ?thesis
    by (simp add: toggleCell_def Let_def cong: map_cong)
qed

lemma map_at_single_index:
  assumes "i < length xs" and "P (xs ! i)"
    and "\<forall>j < length xs. P (xs ! j) \<longrightarrow> j = i"
  shows "map (\<lambda>c. if P c then f c else c) xs = xs[i := f (xs ! i)]"
proof (rule nth_equalityI)
  show "length (map (\<lambda>c. if P c then f c else c) xs) = length (xs[i := f (xs ! i)])"
    by simp
next
  fix j assume "j < length (map (\<lambda>c. if P c then f c else c) xs)"
  then have j: "j < length xs" by simp
  show "map (\<lambda>c. if P c then f c else c) xs ! j = xs[i := f (xs ! i)] ! j"
  proof (cases "j = i")
    case True
    with assms(1,2) show ?thesis by simp
  next
    case False
    with assms(3) j have "\<not> P (xs ! j)" by blast
    with False j show ?thesis by simp
  qed
qed

lemma matrixData_handleCheckboxChange:
  "lId \<noteq> [] \<Longrightarrow> uId \<noteq> [] \<Longrightarrow>
   matrixData (handleCheckboxChange (Some lId) (Some uId) isChecked st) =
     map withAmount (toggleCell lId uId isChecked (matrixData st))"
  by (simp add: handleCheckboxChange_def forceRefresh_def matrixData_calculateTotals)

lemma map_withAmount_update:
  assumes "amountsSettled xs"
  shows "map withAmount (xs[i := c]) = xs[i := withAmount c]"
proof -
  from assms have "map withAmount xs = xs"
    by (simp add: amountsSettled_def list_all_iff withAmount_settled map_idI)
  then show ?thesis
    by (simp add: map_update)
qed

lemma keyedGrid_exampleMatrix: "keyedGrid exampleMatrix"
  by (simp add: keyedGrid_def exampleMatrix_def)

lemma exampleMatrix_key_unique:
  "\<forall>j < length exampleMatrix.
     lineItemId (exampleMatrix ! j) = ''L1'' \<and> userId (exampleMatrix ! j) = ''U1'' \<longrightarrow> j = 0"
  by (auto simp: exampleMatrix_def nth_Cons split: nat.splits)

lemma matrixData_hyphenComponent:
  "matrixData hyphenComponent =
     [\<lparr> cellId = ''a-b-c'', lineItemId = ''a-b'', userId = ''c'', lineItemName = None,
        teamMemberName = ''Ann'', teamMemberRole = ''Owner'', lineMargin = Finite 100,
        selected = False, percentage = Finite 10, defaultPercentage = Finite 10,
        amount = Finite 0, existingCommissionId = None \<rparr>,
      \<lparr> cellId = ''a-b-b-c'', lineItemId = ''a-b'', userId = ''b-c'', lineItemName = None,
        teamMemberName = ''Bob'', teamMemberRole = ''Engineer'', lineMargin = Finite 100,
        selected = False, percentage = Finite 10, defaultPercentage = Finite 10,
        amount = Finite 0, existingCommissionId = None \<rparr>,
      \<lparr> cellId = ''a-c'', lineItemId = ''a'', userId = ''c'', lineItemName = None,
        teamMemberName = ''Ann'', teamMemberRole = ''Owner'', lineMargin = Finite 100,
        selected = False, percentage = Finite 10, defaultPercentage = Finite 10,
        amount = Finite 0, existingCommissionId = None \<rparr>,
      \<lparr> cellId = ''a-b-c'', lineItemId = ''a'', userId = ''b-c'', lineItemName = None,
        teamMemberName = ''Bob'', teamMemberRole = ''Engineer'', lineMargin = Finite 100,
        selected = False, percentage = Finite 10, defaultPercentage = Finite 10,
        amount = Finite 0, existingCommissionId = None \<rparr>]"
  by (simp add: hyphenComponent_def hyphenData_def loadData_def initialComponent_def dispatch_def
      initializeMatrix_def matrixData_calculateTotals buildMatrix_def newCell_def
      findExistingCommission_def percentageValue_def orZero_simps orElse_def withAmount_def
      cellAmount_def Let_def)

text \<open>
  Claim C8, as stated, fails. The component that has loaded the line items \<open>a-b\<close> and \<open>a\<close>
  and the team members \<open>c\<close> and \<open>b-c\<close> holds one cell per pair, and the cells of the pairs
  \<open>(a-b, c)\<close> and \<open>(a, b-c)\<close>, at indices 0 and 3, both carry the id string \<open>a-b-c\<close>.
  Toggling the key \<open>(a, b-c)\<close>, which is present once, selects both: the cell at index 0,
  which has another key, does not stay unchanged.
\<close>

theorem toggleCell_changes_a_cell_of_another_key:
  "reachable hyphenComponent \<and>
   length (matrixData hyphenComponent) = 4 \<and>
   lineItemId (matrixData hyphenComponent ! 3) = ''a'' \<and>
   userId (matrixData hyphenComponent ! 3) = ''b-c'' \<and>
   lineItemId (matrixData hyphenComponent ! 0) = ''a-b'' \<and>
   userId (matrixData hyphenComponent ! 0) = ''c'' \<and>
   lineItemId (matrixData hyphenComponent ! Suc 0) = ''a-b'' \<and>
   userId (matrixData hyphenComponent ! 2) = ''c'' \<and>
   selected (matrixData hyphenComponent ! 0) = False \<and>
   toggleCell ''a'' ''b-c'' True (matrixData hyphenComponent) ! 0 \<noteq> matrixData hyphenComponent ! 0 \<and>
   selected (toggleCell ''a'' ''b-c'' True (matrixData hyphenComponent) ! 0) = True \<and>
   selected (toggleCell ''a'' ''b-c'' True (matrixData hyphenComponent) ! 3) = True \<and>
   selected (matrixData
     (handleCheckboxChange (Some ''a'') (Some ''b-c'') True hyphenComponent) ! 0) = True \<and>
   selected (matrixData
     (handleCheckboxChange (Some ''a'') (Some ''b-c'') True hyphenComponent) ! 3) = True"
proof -
  have r: "reachable hyphenComponent"
    unfolding hyphenComponent_def by (intro reachable.load reachable.initial)
  have t: "toggleCell ''a'' ''b-c'' True (matrixData hyphenComponent) =
      (matrixData hyphenComponent)
        [0 := (matrixData hyphenComponent ! 0)\<lparr> selected := True \<rparr>,
         3 := (matrixData hyphenComponent ! 3)\<lparr> selected := True \<rparr>]"
    by (simp add: matrixData_hyphenComponent toggleCell_def Let_def)
  have h: "matrixData (handleCheckboxChange (Some ''a'') (Some ''b-c'') True hyphenComponent) =
      map withAmount (toggleCell ''a'' ''b-c'' True (matrixData hyphenComponent))"
    by (simp add: matrixData_handleCheckboxChange)
  from r show ?thesis
    unfolding h t by (simp add: matrixData_hyphenComponent)
qed

text \<open>
  Claim C8, amended. On a keyed grid, that is, one whose cells carry the id string the
  reconciliation gives them and whose line item ids contain no hyphen, in which the key
  \<open>(lId, uId)\<close> is present at index \<open>i\<close>, \<open>toggleCell\<close> keeps the length and order of the
  grid, sets \<open>selected\<close> on the cells with that key and changes nothing else. When \<open>i\<close> is
  the only index with the key, the result is the grid with cell \<open>i\<close> replaced by itself
  with \<open>selected := isChecked\<close>. The handler, given the two non-empty ids and a grid with
  settled amounts, stores that grid with the amount of cell \<open>i\<close> recomputed by the totals
  pass; all other cells are as before.
\<close>

theorem toggleCell_frame:
  assumes "keyedGrid matrix"
    and "i < length matrix"
    and "lineItemId (matrix ! i) = lId" and "userId (matrix ! i) = uId"
  shows "length (toggleCell lId uId isChecked matrix) = length matrix \<and>
         (\<forall>j < length matrix.
            toggleCell lId uId isChecked matrix ! j =
              (if lineItemId (matrix ! j) = lId \<and> userId (matrix ! j) = uId
               then (matrix ! j)\<lparr> selected := isChecked \<rparr> else matrix ! j)) \<and>
         ((\<forall>j < length matrix. lineItemId (matrix ! j) = lId \<and> userId (matrix ! j) = uId \<longrightarrow> j = i) \<longrightarrow>
            toggleCell lId uId isChecked matrix = matrix[i := (matrix ! i)\<lparr> selected := isChecked \<rparr>] \<and>
            (matrixData st = matrix \<and> lId \<noteq> [] \<and> uId \<noteq> [] \<and> amountsSettled matrix \<longrightarrow>
               matrixData (handleCheckboxChange (Some lId) (Some uId) isChecked st) =
                 matrix[i := withAmount ((matrix ! i)\<lparr> selected := isChecked \<rparr>)]))"
proof -
  let ?P = "\<lambda>c. lineItemId c = lId \<and> userId c = uId"
  from assms(1,2,3) have dash: "CHR ''-'' \<notin> set lId"
    by (auto simp: keyedGrid_def list_all_length)
  note byKey = toggleCell_by_key [OF assms(1) dash, of uId isChecked]
  have len: "length (toggleCell lId uId isChecked matrix) = length matrix"
    by (simp add: byKey)
  have cells: "\<forall>j < length matrix.
            toggleCell lId uId isChecked matrix ! j =
              (if lineItemId (matrix ! j) = lId \<and> userId (matrix ! j) = uId
               then (matrix ! j)\<lparr> selected := isChecked \<rparr> else matrix ! j)"
    by (simp add: byKey)
  have single: "toggleCell lId uId isChecked matrix = matrix[i := (matrix ! i)\<lparr> selected := isChecked \<rparr>]"
    if "\<forall>j < length matrix. ?P (matrix ! j) \<longrightarrow> j = i"
    unfolding byKey
    by (rule map_at_single_index [OF assms(2) _ that]) (simp add: assms(3,4))
  have handler: "matrixData (handleCheckboxChange (Some lId) (Some uId) isChecked st) =
                 matrix[i := withAmount ((matrix ! i)\<lparr> selected := isChecked \<rparr>)]"
    if u: "\<forall>j < length matrix. ?P (matrix ! j) \<longrightarrow> j = i"
      and h: "matrixData st = matrix \<and> lId \<noteq> [] \<and> uId \<noteq> [] \<and> amountsSettled matrix"
  proof -
    from h have "matrixData (handleCheckboxChange (Some lId) (Some uId) isChecked st) =
        map withAmount (toggleCell lId uId isChecked matrix)"
      by (simp add: matrixData_handleCheckboxChange)
    also have "\<dots> = map withAmount (matrix[i := (matrix ! i)\<lparr> selected := isChecked \<rparr>])"
      by (simp only: single [OF u])
    also from h have "\<dots> = matrix[i := withAmount ((matrix ! i)\<lparr> selected := isChecked \<rparr>)]"
      by (simp only: map_withAmount_update)
    finally show ?thesis .
  qed
  show ?thesis
  proof (intro conjI impI)
    show "length (toggleCell lId uId isChecked matrix) = length matrix" by (rule len)
    show "\<forall>j < length matrix.
            toggleCell lId uId isChecked matrix ! j =
              (if lineItemId (matrix ! j) = lId \<and> userId (matrix ! j) = uId
               then (matrix ! j)\<lparr> selected := isChecked \<rparr> else matrix ! j)" by (rule cells)
  next
    assume "\<forall>j < length matrix. ?P (matrix ! j) \<longrightarrow> j = i"
    then show "toggleCell lId uId isChecked matrix = matrix[i := (matrix ! i)\<lparr> selected := isChecked \<rparr>]"
      by (rule single)
  next
    assume "\<forall>j < length matrix. ?P (matrix ! j) \<longrightarrow> j = i"
      and "matrixData st = matrix \<and> lId \<noteq> [] \<and> uId \<noteq> [] \<and> amountsSettled matrix"
    then show "matrixData (handleCheckboxChange (Some lId) (Some uId) isChecked st) =
                 matrix[i := withAmount ((matrix ! i)\<lparr> selected := isChecked \<rparr>)]"
      by (rule handler)
  qed
qed

theorem toggleCell_frame_witness:
  "keyedGrid exampleMatrix \<and> 0 < length exampleMatrix \<and>
   lineItemId (exampleMatrix ! 0) = ''L1'' \<and> userId (exampleMatrix ! 0) = ''U1'' \<and>
   amountsSettled exampleMatrix \<and>
   toggleCell ''L1'' ''U1'' True exampleMatrix =
     exampleMatrix[0 := (exampleMatrix ! 0)\<lparr> selected := True \<rparr>] \<and>
   matrixData (handleCheckboxChange (Some ''L1'') (Some ''U1'') True exampleComponent) =
     exampleMatrix[0 := (exampleMatrix ! 0)\<lparr> selected := True, amount := Finite 100 \<rparr>]"
proof -
  have pre: "0 < length exampleMatrix" "lineItemId (exampleMatrix ! 0) = ''L1''"
      "userId (exampleMatrix ! 0) = ''U1''"
    by (simp_all add: exampleMatrix_nth)
  note frame = toggleCell_frame [OF keyedGrid_exampleMatrix pre, of True exampleComponent]
  from frame exampleMatrix_key_unique
  have a: "toggleCell ''L1'' ''U1'' True exampleMatrix =
      exampleMatrix[0 := (exampleMatrix ! 0)\<lparr> selected := True \<rparr>]"
    by blast
  have "withAmount ((exampleMatrix ! 0)\<lparr> selected := True \<rparr>) =
      (exampleMatrix ! 0)\<lparr> selected := True, amount := Finite 100 \<rparr>"
    by (simp add: exampleMatrix_nth withAmount_def cellAmount_def Let_def example_amounts)
  with frame exampleMatrix_key_unique matrixData_exampleComponent amountsSettled_exampleMatrix
  have b: "matrixData (handleCheckboxChange (Some ''L1'') (Some ''U1'') True exampleComponent) =
      exampleMatrix[0 := (exampleMatrix ! 0)\<lparr> selected := True, amount := Finite 100 \<rparr>]"
    by simp
  from a b pre keyedGrid_exampleMatrix amountsSettled_exampleMatrix show ?thesis
    by simp
qed


text \<open>
  The grids the component holds are keyed when no line item id contains a hyphen, and
  every mutation keeps them keyed; the keys of a built grid are unique when the line
  item ids and the user ids are.
\<close>

lemma keyedGrid_map:
  assumes "\<And>c. cellId (f c) = cellId c \<and> lineItemId (f c) = lineItemId c \<and> userId (f c) = userId c"
  shows "keyedGrid (map f matrix) = keyedGrid matrix"
  by (simp add: keyedGrid_def list_all_iff assms)

lemma keyedGrid_buildMatrix:
  assumes "\<And>lis li. lineItems od = Some lis \<Longrightarrow> li \<in> set lis \<Longrightarrow> CHR ''-'' \<notin> set (liId li)"
  shows "keyedGrid (buildMatrix comms od)"
proof (cases "lineItems od")
  case None
  then show ?thesis
    by (simp add: keyedGrid_def buildMatrix_def)
next
  case (Some lis)
  with assms have "\<forall>li \<in> set lis. CHR ''-'' \<notin> set (liId li)" by blast
  with Some show ?thesis
    by (auto simp: keyedGrid_def list_all_iff buildMatrix_def newCell_def Let_def
        split: option.splits)
qed

lemma keyedGrid_initializeMatrix:
  assumes "\<And>lis li. lineItems (opportunityData st) = Some lis \<Longrightarrow> li \<in> set lis \<Longrightarrow>
             CHR ''-'' \<notin> set (liId li)"
  shows "keyedGrid (matrixData (initializeMatrix st))"
proof -
  have "keyedGrid (buildMatrix (existingCommissions st) (opportunityData st))"
    using assms by (rule keyedGrid_buildMatrix)
  then show ?thesis
    by (simp add: matrixData_initializeMatrix keyedGrid_map withAmount_def)
qed

lemma keyedGrid_mutations:
  "keyedGrid (toggleCell lId uId isChecked matrix) = keyedGrid matrix"
  "keyedGrid (setPercentage lId uId v matrix) = keyedGrid matrix"
  "keyedGrid (selectAllForLineItem lId isChecked matrix) = keyedGrid matrix"
  "keyedGrid (selectAllForTeamMember uId isChecked matrix) = keyedGrid matrix"
  "keyedGrid (map withAmount matrix) = keyedGrid matrix"
  by (simp_all add: toggleCell_def setPercentage_def selectAllForLineItem_def
      selectAllForTeamMember_def withAmount_def keyedGrid_map Let_def)

lemma index_split:
  assumes "k < n * (m::nat)"
  shows "k div m < n \<and> k mod m < m \<and> k = k div m * m + k mod m"
proof -
  from assms have m: "0 < m" by (cases m) auto
  then have "k div m < n"
    using assms by (simp add: less_mult_imp_div_less)
  with m show ?thesis by simp
qed

lemma buildMatrix_key_unique:
  assumes od: "lineItems od = Some lis" "teamMembers od = Some tms"
    and dist: "distinct (map liId lis)" "distinct (map tmUserId tms)"
    and ij: "i < length lis" "j < length tms"
    and k: "k < length (buildMatrix comms od)"
    and key: "lineItemId (buildMatrix comms od ! k) = liId (lis ! i)"
             "userId (buildMatrix comms od ! k) = tmUserId (tms ! j)"
  shows "k = i * length tms + j"
proof -
  let ?m = "length tms"
  from k od have "k < length lis * ?m"
    by (simp add: length_buildMatrix)
  from index_split [OF this] have q: "k div ?m < length lis" and r: "k mod ?m < ?m"
    and split: "k = k div ?m * ?m + k mod ?m"
    by simp_all
  have "buildMatrix comms od ! (k div ?m * ?m + k mod ?m) =
          newCell comms (lis ! (k div ?m)) (tms ! (k mod ?m))"
    by (rule nth_buildMatrix [OF od q r])
  with split have cell: "buildMatrix comms od ! k = newCell comms (lis ! (k div ?m)) (tms ! (k mod ?m))"
    by simp
  from key(1) have "map liId lis ! (k div ?m) = map liId lis ! i"
    using q ij(1) by (simp add: cell newCell_def Let_def)
  moreover from q ij(1) have "k div ?m < length (map liId lis)" "i < length (map liId lis)"
    by simp_all
  ultimately have qi: "k div ?m = i"
    using dist(1) by (simp only: nth_eq_iff_index_eq)
  from key(2) have "map tmUserId tms ! (k mod ?m) = map tmUserId tms ! j"
    using r ij(2) by (simp add: cell newCell_def Let_def)
  moreover from r ij(2) have "k mod ?m < length (map tmUserId tms)" "j < length (map tmUserId tms)"
    by simp_all
  ultimately have rj: "k mod ?m = j"
    using dist(2) by (simp only: nth_eq_iff_index_eq)
  from split qi rj show ?thesis by simp
qed

end
